theory Spec2Isabelle
  imports Complex_Main "HOL-Library.Sublist" "HOL-Library.Word" "HOL-Library.Signed_Division"
    "HOL-Library.Char_ord" "HOL-Library.List_Lexorder" "HOL-Library.AList"
begin

unbundle bit_operations_syntax

section \<open>Library functions the program calls\<close>

text \<open>
  The program is Go 1.22 on a Unix system. The functions of this section are those of the
  Go standard library that the program calls on strings and paths (\<^verbatim>\<open>strings.Contains\<close>,
  \<^verbatim>\<open>filepath.Clean\<close>, \<^verbatim>\<open>Base\<close>, \<^verbatim>\<open>Dir\<close>, \<^verbatim>\<open>Join\<close>, \<^verbatim>\<open>Rel\<close>, \<^verbatim>\<open>Abs\<close>), written after
  their Go sources for the separator \<^verbatim>\<open>/\<close> and no volume names. A Go string is a byte
  sequence, here a \<^typ>\<open>string\<close>.
\<close>

subsection \<open>strings.Contains\<close>

text \<open>\<^verbatim>\<open>strings.Index(s, substr)\<close>: the first index at which \<^verbatim>\<open>substr\<close> occurs in \<^verbatim>\<open>s\<close>, or -1.\<close>

fun index_from :: "nat \<Rightarrow> string \<Rightarrow> string \<Rightarrow> int" where
  "index_from i [] sub = (if sub = [] then int i else - 1)"
| "index_from i (c # cs) sub =
     (if prefix sub (c # cs) then int i else index_from (Suc i) cs sub)"

definition strings_Index :: "string \<Rightarrow> string \<Rightarrow> int" where
  "strings_Index s sub = index_from 0 s sub"

text \<open>\<^verbatim>\<open>func Contains(s, substr string) bool { return Index(s, substr) >= 0 }\<close>\<close>

definition strings_Contains :: "string \<Rightarrow> string \<Rightarrow> bool" where
  "strings_Contains s sub = (strings_Index s sub \<ge> 0)"

subsection \<open>path/filepath\<close>

definition isSep :: "char \<Rightarrow> bool" where
  "isSep c = (c = CHR ''/'')"

text \<open>
  In \<^verbatim>\<open>Clean\<close>, a \<^verbatim>\<open>..\<close> element that can backtrack runs
  \<^verbatim>\<open>out.w--; for out.w > dotdot && !os.IsPathSeparator(out.index(out.w)) { out.w-- }\<close>.
  \<open>backtrack buf dotdot w\<close> is the loop started at \<open>w\<close> (the value after the first decrement).
\<close>

fun backtrack :: "string \<Rightarrow> nat \<Rightarrow> nat \<Rightarrow> nat" where
  "backtrack buf dotdot 0 = 0"
| "backtrack buf dotdot (Suc w) =
     (if Suc w > dotdot \<and> \<not> isSep (buf ! Suc w) then backtrack buf dotdot w else Suc w)"

text \<open>
  The main loop of \<^verbatim>\<open>Clean\<close>: the second argument is the unread input \<^verbatim>\<open>path[r:]\<close>, \<open>out\<close>
  is the buffer written so far (\<^verbatim>\<open>out.w\<close> is its length), \<open>dotdot\<close> the index where \<^verbatim>\<open>..\<close>
  must stop.
\<close>

function clean_loop :: "bool \<Rightarrow> string \<Rightarrow> string \<Rightarrow> nat \<Rightarrow> string" where
  "clean_loop rooted [] out dotdot = out"
| "clean_loop rooted (c # cs) out dotdot =
     (if isSep c then clean_loop rooted cs out dotdot
      else if c = CHR ''.'' \<and> (cs = [] \<or> isSep (hd cs)) then clean_loop rooted cs out dotdot
      else if c = CHR ''.'' \<and> hd cs = CHR ''.'' \<and> (tl cs = [] \<or> isSep (hd (tl cs))) then
        (if length out > dotdot then
           clean_loop rooted (tl cs) (take (backtrack out dotdot (length out - 1)) out) dotdot
         else if \<not> rooted then
           (let out' = (if length out > 0 then out @ ''/'' else out) @ ''..''
            in clean_loop rooted (tl cs) out' (length out'))
         else clean_loop rooted (tl cs) out dotdot)
      else
        (let out' = (if rooted \<and> length out \<noteq> 1 \<or> \<not> rooted \<and> length out \<noteq> 0
                     then out @ ''/'' else out)
         in clean_loop rooted (dropWhile (\<lambda>x. \<not> isSep x) cs)
              (out' @ c # takeWhile (\<lambda>x. \<not> isSep x) cs) dotdot))"
  by pat_completeness auto
termination
  by (relation "measure (\<lambda>(rooted, inp, out, dotdot). length inp)")
     (auto simp: length_dropWhile_le less_Suc_eq_le)

definition filepath_Clean :: "string \<Rightarrow> string" where
  "filepath_Clean path =
     (if path = [] then ''.''
      else let rooted = isSep (hd path);
               out = (if rooted then clean_loop True (tl path) ''/'' 1
                      else clean_loop False path [] 0)
           in if out = [] then ''.'' else out)"

text \<open>
  \<^verbatim>\<open>Base\<close>: the empty path gives \<^verbatim>\<open>.\<close>; trailing separators are stripped; the last element
  is what follows the last separator; a path of separators only gives \<^verbatim>\<open>/\<close>.
\<close>

definition filepath_Base :: "string \<Rightarrow> string" where
  "filepath_Base path =
     (if path = [] then ''.''
      else let stripped = rev (dropWhile isSep (rev path));
               elem = rev (takeWhile (\<lambda>c. \<not> isSep c) (rev stripped))
           in if elem = [] then ''/'' else elem)"

text \<open>\<^verbatim>\<open>Dir\<close>: \<^verbatim>\<open>Clean\<close> of the path up to and including its last separator.\<close>

definition filepath_Dir :: "string \<Rightarrow> string" where
  "filepath_Dir path = filepath_Clean (rev (dropWhile (\<lambda>c. \<not> isSep c) (rev path)))"

text \<open>
  \<^verbatim>\<open>Join\<close> of two elements: leading empty elements are dropped, the rest is joined with
  the separator and cleaned; all elements empty gives the empty string.
\<close>

definition filepath_Join :: "string \<Rightarrow> string \<Rightarrow> string" where
  "filepath_Join a b =
     (if a \<noteq> [] then filepath_Clean (a @ ''/'' @ b)
      else if b \<noteq> [] then filepath_Clean b
      else [])"

text \<open>
  \<^verbatim>\<open>Rel\<close>. Its loop positions \<^verbatim>\<open>base[b0:bi]\<close> and \<^verbatim>\<open>targ[t0:ti]\<close> at the first differing
  elements; \<open>rel_loop\<close> takes \<^verbatim>\<open>base[b0:]\<close> and \<^verbatim>\<open>targ[t0:]\<close> and returns them at exit together
  with \<^verbatim>\<open>base[b0:bi]\<close>.
\<close>

function rel_loop :: "string \<Rightarrow> string \<Rightarrow> string \<times> string \<times> string" where
  "rel_loop b t =
     (if b \<noteq> [] \<and> t \<noteq> [] then
        (let be = takeWhile (\<lambda>c. \<not> isSep c) b;
             te = takeWhile (\<lambda>c. \<not> isSep c) t
         in if te \<noteq> be then (b, t, be)
            else rel_loop (drop (Suc (length be)) b) (drop (Suc (length te)) t))
      else (b, t, []))"
  by pat_completeness auto
termination
  by (relation "measure (\<lambda>(b, t). length b)") auto

declare rel_loop.simps [simp del]

datatype errno = ENOENT | EEXIST | EISDIR | ENOTDIR | EACCES | EIO | ENOSPC

datatype syscall = SysStat | SysLstat | SysOpen | SysCreate | SysRead | SysWrite
  | SysFstat | SysFsync | SysChmod | SysMkdir | SysReaddir | SysGetwd
  | SysInotifyInit | SysInotifyAddWatch

text \<open>
  A Go \<^verbatim>\<open>error\<close> value: \<^verbatim>\<open>*fs.PathError{Op, Path, Err}\<close> from the \<^verbatim>\<open>os\<close> package, or the
  error of \<^verbatim>\<open>filepath.Rel\<close> (\<^verbatim>\<open>"Rel: can't make " + targpath + " relative to " + basepath\<close>).
\<close>

datatype error = PathError syscall string errno | RelError string string

definition filepath_Rel :: "string \<Rightarrow> string \<Rightarrow> error + string" where
  "filepath_Rel basepath targpath =
     (let base = filepath_Clean basepath;
          targ = filepath_Clean targpath
      in if targ = base then Inr ''.''
         else
           let base = (if base = ''.'' then [] else base);
               baseSlashed = (length base > 0 \<and> isSep (hd base));
               targSlashed = (length targ > 0 \<and> isSep (hd targ))
           in if baseSlashed \<noteq> targSlashed then Inl (RelError targpath basepath)
              else
                (case rel_loop base targ of (brest, trest, belem) \<Rightarrow>
                   if belem = ''..'' then Inl (RelError targpath basepath)
                   else if brest \<noteq> [] then
                     Inr (''..'' @ concat (replicate (length (filter isSep brest)) ''/..'')
                          @ (if trest \<noteq> [] then ''/'' @ trest else []))
                   else Inr trest))"

subsection \<open>time.Time\<close>

text \<open>
  A wall-clock instant: seconds and nanoseconds within the second. File modification times
  carry no monotonic clock reading, so \<^verbatim>\<open>Time.After\<close> compares the seconds and then the
  nanoseconds: \<^verbatim>\<open>ts > us || ts == us && t.nsec() > u.nsec()\<close>.
\<close>

record gotime =
  sec :: int
  nsec :: int

definition time_After :: "gotime \<Rightarrow> gotime \<Rightarrow> bool" where
  "time_After t u = (sec t > sec u \<or> sec t = sec u \<and> nsec t > nsec u)"

text \<open>
  \<^verbatim>\<open>Duration.Seconds\<close>: \<^verbatim>\<open>sec := d / Second; nsec := d % Second;
  return float64(sec) + float64(nsec)/1e9\<close>. Go's integer division truncates toward zero
  (\<open>sdiv\<close>, \<open>smod\<close>). The \<^verbatim>\<open>float64\<close> result is taken as the real number it approximates.
\<close>

definition Seconds :: "int \<Rightarrow> real" where
  "Seconds d = real_of_int (d sdiv 1000000000) + real_of_int (d smod 1000000000) / 1000000000"

subsection \<open>The file system and the os package\<close>

text \<open>
  A file tree without symbolic links. A regular file has permission bits, a modification
  time and its bytes; a directory has permission bits, a modification time and named
  entries. \<^verbatim>\<open>os.FileMode\<close> is a \<^verbatim>\<open>uint32\<close>; \<^verbatim>\<open>ModeDir\<close> is its top bit and \<^verbatim>\<open>ModePerm\<close> is
  \<^verbatim>\<open>0777\<close>.
\<close>

datatype node =
    File "32 word" gotime string
  | Dir "32 word" gotime "(string \<times> node) list"

definition ModeDir :: "32 word" where
  "ModeDir = push_bit 31 1"

definition ModePerm :: "32 word" where
  "ModePerm = 511"

record fileInfo =
  fi_Name :: string
  fi_Size :: int
  fi_Mode :: "32 word"
  fi_ModTime :: gotime
  fi_IsDir :: bool

fun info_of :: "string \<Rightarrow> node \<Rightarrow> fileInfo" where
  "info_of name (File perm mtime bytes) =
     \<lparr>fi_Name = name, fi_Size = int (length bytes), fi_Mode = perm,
      fi_ModTime = mtime, fi_IsDir = False\<rparr>"
| "info_of name (Dir perm mtime entries) =
     \<lparr>fi_Name = name, fi_Size = 4096, fi_Mode = perm OR ModeDir,
      fi_ModTime = mtime, fi_IsDir = True\<rparr>"

text \<open>What the program prints with \<^verbatim>\<open>fmt.Println\<close> and \<^verbatim>\<open>fmt.Printf\<close>, one value per line.\<close>

datatype line =
    StartingRealTimeSync
  | ErrorCreatingWatcher error
  | ErrorGettingAbsolutePath error
  | ErrorWalkingSourceDirectory error
  | DetectedModification string
  | ErrorGettingRelativePath error
  | ErrorLine error
  | CopyingDone string real real
  | CopyingDoneText string string string
  | ErrorCopyingFile error
  | StartingScheduledBackup
  | ErrorDuringScheduledBackup error
  | ScheduledBackupCompleted

text \<open>
  The world a run sees: the tree under \<^verbatim>\<open>/\<close>, the working directory, the file creation
  mask, the clock, the standard output, and two things the environment decides: which
  system calls fail on which paths (\<open>faults\<close>: permissions, I/O errors, a full disk) and how
  long the copy of a source file takes (\<open>took\<close>, in nanoseconds).
\<close>

record world =
  root :: node
  cwd :: string
  umask :: "32 word"
  now :: gotime
  stdout :: "line list"
  faults :: "syscall \<Rightarrow> string \<Rightarrow> errno option"
  took :: "string \<Rightarrow> int"

definition println :: "line \<Rightarrow> world \<Rightarrow> world" where
  "println l w = w\<lparr>stdout := stdout w @ [l]\<rparr>"

text \<open>The elements of a cleaned path, between its separators.\<close>

fun elements_from :: "string \<Rightarrow> string \<Rightarrow> string list" where
  "elements_from cur [] = (if cur = [] then [] else [cur])"
| "elements_from cur (c # cs) =
     (if isSep c then (if cur = [] then elements_from [] cs else cur # elements_from [] cs)
      else elements_from (cur @ [c]) cs)"

text \<open>
  Path resolution: a relative path starts at the working directory; \<^verbatim>\<open>.\<close> and \<^verbatim>\<open>..\<close> are
  resolved as \<^verbatim>\<open>Clean\<close> does (there are no symbolic links).
\<close>

definition locate :: "world \<Rightarrow> string \<Rightarrow> string list" where
  "locate w path =
     elements_from []
       (filepath_Clean (if path \<noteq> [] \<and> isSep (hd path) then path else cwd w @ ''/'' @ path))"

fun lookup :: "node \<Rightarrow> string list \<Rightarrow> errno + node" where
  "lookup n [] = Inr n"
| "lookup (File perm mtime bytes) (c # cs) = Inl ENOTDIR"
| "lookup (Dir perm mtime entries) (c # cs) =
     (case map_of entries c of None \<Rightarrow> Inl ENOENT | Some child \<Rightarrow> lookup child cs)"

text \<open>
  \<open>store cs new n\<close> puts \<open>new\<close> at the place \<open>cs\<close> below \<open>n\<close>, replacing what is there or adding
  an entry to the parent directory; the callers have checked that the parent is a directory.
\<close>

fun store :: "string list \<Rightarrow> node \<Rightarrow> node \<Rightarrow> node" where
  "store [] new n = new"
| "store (c # cs) new (File perm mtime bytes) = File perm mtime bytes"
| "store (c # cs) new (Dir perm mtime entries) =
     (case map_of entries c of
        Some child \<Rightarrow> Dir perm mtime (AList.update c (store cs new child) entries)
      | None \<Rightarrow> if cs = [] then Dir perm mtime (entries @ [(c, new)])
                else Dir perm mtime entries)"

text \<open>
  A system call on a path: the environment's fault first, then the empty path (\<^verbatim>\<open>ENOENT\<close>),
  then the resolution in the tree.
\<close>

definition resolve :: "world \<Rightarrow> syscall \<Rightarrow> string \<Rightarrow> error + node" where
  "resolve w call path =
     (case faults w call path of
        Some e \<Rightarrow> Inl (PathError call path e)
      | None \<Rightarrow>
          if path = [] then Inl (PathError call path ENOENT)
          else (case lookup (root w) (locate w path) of
                  Inl e \<Rightarrow> Inl (PathError call path e)
                | Inr n \<Rightarrow> Inr n))"

definition os_Stat :: "world \<Rightarrow> string \<Rightarrow> error + fileInfo" where
  "os_Stat w path = map_sum id (info_of (filepath_Base path)) (resolve w SysStat path)"

definition os_Lstat :: "world \<Rightarrow> string \<Rightarrow> error + fileInfo" where
  "os_Lstat w path = map_sum id (info_of (filepath_Base path)) (resolve w SysLstat path)"

text \<open>
  \<^verbatim>\<open>os.IsNotExist(err)\<close>: the error is a path error whose cause is \<^verbatim>\<open>ENOENT\<close>; false for
  \<^verbatim>\<open>nil\<close>.
\<close>

fun os_IsNotExist :: "error option \<Rightarrow> bool" where
  "os_IsNotExist (Some (PathError call path e)) = (e = ENOENT)"
| "os_IsNotExist _ = False"

text \<open>\<^verbatim>\<open>os.Open\<close>: opening a directory for reading succeeds.\<close>

definition os_Open :: "world \<Rightarrow> string \<Rightarrow> error + node" where
  "os_Open w path = resolve w SysOpen path"

text \<open>
  The parent directory of a place and the entry found there: an error when the parent is
  missing or not a directory.
\<close>

definition parent_entry :: "world \<Rightarrow> string \<Rightarrow> errno + node option" where
  "parent_entry w path =
     (let place = locate w path
      in if place = [] then Inr (Some (root w))
         else (case lookup (root w) (butlast place) of
                 Inl e \<Rightarrow> Inl e
               | Inr (File perm mtime bytes) \<Rightarrow> Inl ENOTDIR
               | Inr (Dir perm mtime entries) \<Rightarrow> Inr (map_of entries (last place))))"

text \<open>
  \<^verbatim>\<open>os.Create(name)\<close> is \<^verbatim>\<open>OpenFile(name, O_RDWR|O_CREATE|O_TRUNC, 0666)\<close>: it fails when a
  directory of the path is missing or the path names a directory, truncates an existing
  file and creates a missing one with mode \<^verbatim>\<open>0666\<close> less the creation mask.
\<close>

definition os_Create :: "world \<Rightarrow> string \<Rightarrow> error option \<times> world" where
  "os_Create w path =
     (case faults w SysCreate path of
        Some e \<Rightarrow> (Some (PathError SysCreate path e), w)
      | None \<Rightarrow>
          if path = [] then (Some (PathError SysCreate path ENOENT), w)
          else (case parent_entry w path of
                  Inl e \<Rightarrow> (Some (PathError SysCreate path e), w)
                | Inr (Some (Dir perm mtime entries)) \<Rightarrow>
                    (Some (PathError SysCreate path EISDIR), w)
                | Inr (Some (File perm mtime bytes)) \<Rightarrow>
                    (None, w\<lparr>root := store (locate w path) (File perm (now w) []) (root w)\<rparr>)
                | Inr None \<Rightarrow>
                    (None, w\<lparr>root := store (locate w path)
                                       (File (438 AND NOT (umask w)) (now w) []) (root w)\<rparr>)))"

text \<open>\<^verbatim>\<open>os.Mkdir(name, perm)\<close>: the new directory gets the permission bits less the mask.\<close>

definition os_Mkdir :: "world \<Rightarrow> string \<Rightarrow> 32 word \<Rightarrow> error option \<times> world" where
  "os_Mkdir w path perm =
     (case faults w SysMkdir path of
        Some e \<Rightarrow> (Some (PathError SysMkdir path e), w)
      | None \<Rightarrow>
          if path = [] then (Some (PathError SysMkdir path ENOENT), w)
          else (case parent_entry w path of
                  Inl e \<Rightarrow> (Some (PathError SysMkdir path e), w)
                | Inr (Some n) \<Rightarrow> (Some (PathError SysMkdir path EEXIST), w)
                | Inr None \<Rightarrow>
                    (None, w\<lparr>root := store (locate w path)
                                       (Dir (perm AND ModePerm AND NOT (umask w)) (now w) [])
                                       (root w)\<rparr>)))"

text \<open>
  \<^verbatim>\<open>os.MkdirAll(path, perm)\<close> (Go 1.22): nothing to do for an existing directory, an error
  for an existing file; otherwise the parent \<^verbatim>\<open>path[:j-1]\<close> is made first when \<^verbatim>\<open>j > 1\<close>,
  \<^verbatim>\<open>j\<close> being the start of the last element, and then \<^verbatim>\<open>Mkdir(path, perm)\<close> runs; a failure
  of \<^verbatim>\<open>Mkdir\<close> is forgiven when the directory exists by then.
\<close>

definition last_element_start :: "string \<Rightarrow> nat" where
  "last_element_start path =
     length (dropWhile (\<lambda>c. \<not> isSep c) (dropWhile isSep (rev path)))"

function os_MkdirAll :: "world \<Rightarrow> string \<Rightarrow> 32 word \<Rightarrow> error option \<times> world" where
  "os_MkdirAll w path perm =
     (case os_Stat w path of
        Inr dir \<Rightarrow>
          if fi_IsDir dir then (None, w) else (Some (PathError SysMkdir path ENOTDIR), w)
      | Inl err0 \<Rightarrow>
          (case (if last_element_start path > 1
                 then os_MkdirAll w (take (last_element_start path - 1) path) perm
                 else (None, w)) of
             (Some err, w1) \<Rightarrow> (Some err, w1)
           | (None, w1) \<Rightarrow>
               (case os_Mkdir w1 path perm of
                  (None, w2) \<Rightarrow> (None, w2)
                | (Some err, w2) \<Rightarrow>
                    (case os_Lstat w2 path of
                       Inr dir \<Rightarrow> if fi_IsDir dir then (None, w2) else (Some err, w2)
                     | Inl err1 \<Rightarrow> (Some err, w2)))))"
  by pat_completeness auto
termination
proof (relation "measure (\<lambda>(w, path, perm). length path)")
  show "wf (measure (\<lambda>(w, path, perm). length path))" by simp
next
  fix w :: world and path :: string and perm :: "32 word" and err0 :: error
  assume "1 < last_element_start path"
  moreover have "last_element_start path \<le> length path"
    unfolding last_element_start_def
    by (metis length_dropWhile_le length_rev order_trans)
  ultimately show "((w, take (last_element_start path - 1) path, perm), (w, path, perm))
      \<in> measure (\<lambda>(w, path, perm). length path)"
    by simp
qed

declare os_MkdirAll.simps [simp del]

text \<open>\<^verbatim>\<open>os.Chmod(name, mode)\<close> sets the permission bits of an existing file or directory.\<close>

fun with_perm :: "32 word \<Rightarrow> node \<Rightarrow> node" where
  "with_perm p (File perm mtime bytes) = File p mtime bytes"
| "with_perm p (Dir perm mtime entries) = Dir p mtime entries"

definition os_Chmod :: "world \<Rightarrow> string \<Rightarrow> 32 word \<Rightarrow> error option \<times> world" where
  "os_Chmod w path mode =
     (case resolve w SysChmod path of
        Inl err \<Rightarrow> (Some err, w)
      | Inr n \<Rightarrow>
          (None, w\<lparr>root := store (locate w path) (with_perm (mode AND ModePerm) n) (root w)\<rparr>))"

text \<open>
  Writing the bytes read from a source into an open destination file
  (\<^verbatim>\<open>io.Copy(io.MultiWriter(dstFile, bar), srcFile)\<close>): reading a directory fails with
  \<^verbatim>\<open>EISDIR\<close>; a read or write error of the environment is taken to strike before the first
  byte is written. The source is read as it is after the destination was opened.
\<close>

definition io_Copy :: "world \<Rightarrow> string \<Rightarrow> string \<Rightarrow> error option \<times> world" where
  "io_Copy w dst src =
     (case resolve w SysRead src of
        Inl err \<Rightarrow> (Some err, w)
      | Inr (Dir perm mtime entries) \<Rightarrow> (Some (PathError SysRead src EISDIR), w)
      | Inr (File perm mtime bytes) \<Rightarrow>
          (case resolve w SysWrite dst of
             Inl err \<Rightarrow> (Some err, w)
           | Inr (Dir dperm dmtime dentries) \<Rightarrow> (Some (PathError SysWrite dst EISDIR), w)
           | Inr (File dperm dmtime dbytes) \<Rightarrow>
               (None, w\<lparr>root := store (locate w dst) (File dperm (now w) bytes) (root w)\<rparr>)))"

text \<open>\<^verbatim>\<open>(*File).Sync\<close> changes nothing in the tree; it can fail.\<close>

definition file_Sync :: "world \<Rightarrow> string \<Rightarrow> error option" where
  "file_Sync w path = map_option (PathError SysFsync path) (faults w SysFsync path)"

text \<open>\<^verbatim>\<open>(*File).Stat\<close> on the open source file.\<close>

definition file_Stat :: "world \<Rightarrow> string \<Rightarrow> error + fileInfo" where
  "file_Stat w path = map_sum id (info_of (filepath_Base path)) (resolve w SysFstat path)"

text \<open>
  \<^verbatim>\<open>fmt.Sprintf("%.2f", x)\<close>: the sign, the integer digits, a point and two decimals of the
  value rounded to hundredths, ties to even.
\<close>

definition digit :: "nat \<Rightarrow> char" where
  "digit n = char_of (48 + n)"

function decimal :: "nat \<Rightarrow> string" where
  "decimal n = (if n < 10 then [digit n] else decimal (n div 10) @ [digit (n mod 10)])"
  by pat_completeness auto
termination
  by (relation "measure id") auto

declare decimal.simps [simp del]

definition round_even :: "real \<Rightarrow> int" where
  "round_even x =
     (if x - of_int \<lfloor>x\<rfloor> < 1 / 2 then \<lfloor>x\<rfloor>
      else if x - of_int \<lfloor>x\<rfloor> > 1 / 2 then \<lfloor>x\<rfloor> + 1
      else if even \<lfloor>x\<rfloor> then \<lfloor>x\<rfloor> else \<lfloor>x\<rfloor> + 1)"

definition sprintf_2f :: "real \<Rightarrow> string" where
  "sprintf_2f x =
     (let n = nat (round_even (\<bar>x\<bar> * 100))
      in (if x < 0 then ''-'' else []) @ decimal (n div 100) @ ''.''
         @ [digit (n div 10 mod 10), digit (n mod 10)])"

subsection \<open>filepath.Abs and filepath.Walk\<close>

text \<open>\<^verbatim>\<open>Abs\<close>: a rooted path is cleaned, another is joined to the working directory.\<close>

definition filepath_Abs :: "world \<Rightarrow> string \<Rightarrow> error + string" where
  "filepath_Abs w path =
     (if path \<noteq> [] \<and> isSep (hd path) then Inr (filepath_Clean path)
      else (case faults w SysGetwd [] of
              Some e \<Rightarrow> Inl (PathError SysGetwd [] e)
            | None \<Rightarrow> Inr (filepath_Join (cwd w) path)))"

text \<open>
  \<^verbatim>\<open>filepath.Walk(root, fn)\<close> calls \<^verbatim>\<open>fn(path, info, err)\<close> for the root and then, in the
  lexical order of the names, for what each directory holds. A directory that cannot be read
  or an entry whose \<^verbatim>\<open>Lstat\<close> fails is reported to \<^verbatim>\<open>fn\<close> with the error. Every walk function
  of the program returns the error it is given, and never \<^verbatim>\<open>SkipDir\<close>, and \<^verbatim>\<open>Walk\<close> returns at
  once the first error a call returns. So a walk is the list of the calls
  \<^verbatim>\<open>Walk\<close> makes if no call returns an error (\<open>walk_calls\<close>, read off the tree as it is when the
  walk starts: the program writes below the destination only), run in order until a call
  returns an error (\<open>walk_run\<close>).
\<close>

datatype visit = Entry string fileInfo | Failed string "fileInfo option" error

fun walk_calls :: "world \<Rightarrow> string \<Rightarrow> node \<Rightarrow> visit list" where
  "walk_calls w path (File perm mtime bytes) =
     [Entry path (info_of (filepath_Base path) (File perm mtime bytes))]"
| "walk_calls w path (Dir perm mtime entries) =
     (case faults w SysReaddir path of
        Some e \<Rightarrow> [Failed path (Some (info_of (filepath_Base path) (Dir perm mtime entries)))
                      (PathError SysReaddir path e)]
      | None \<Rightarrow>
          Entry path (info_of (filepath_Base path) (Dir perm mtime entries))
          # concat (map (\<lambda>entry.
                (case faults w SysLstat (filepath_Join path (fst entry)) of
                   Some e \<Rightarrow> [Failed (filepath_Join path (fst entry)) None
                                 (PathError SysLstat (filepath_Join path (fst entry)) e)]
                 | None \<Rightarrow> walk_calls w (filepath_Join path (fst entry)) (snd entry)))
              (sort_key fst entries)))"

definition filepath_Walk_calls :: "world \<Rightarrow> string \<Rightarrow> visit list" where
  "filepath_Walk_calls w rootpath =
     (case resolve w SysLstat rootpath of
        Inl err \<Rightarrow> [Failed rootpath None err]
      | Inr n \<Rightarrow> walk_calls w rootpath n)"

fun walk_run :: "(visit \<Rightarrow> 's \<Rightarrow> error option \<times> 's) \<Rightarrow> visit list \<Rightarrow> 's \<Rightarrow> error option \<times> 's" where
  "walk_run fn [] s = (None, s)"
| "walk_run fn (v # vs) s =
     (case fn v s of
        (Some err, s') \<Rightarrow> (Some err, s')
      | (None, s') \<Rightarrow> walk_run fn vs s')"

definition filepath_Walk ::
  "world \<Rightarrow> string \<Rightarrow> (visit \<Rightarrow> 's \<Rightarrow> error option \<times> 's) \<Rightarrow> 's \<Rightarrow> error option \<times> 's" where
  "filepath_Walk w rootpath fn s = walk_run fn (filepath_Walk_calls w rootpath) s"

section \<open>The program\<close>

text \<open>
  The repository holds two revisions of the backup command. \<^verbatim>\<open>src/unnamed/part_000\<close> is the
  revision with include patterns and bounded concurrent transfers; the second file of
  \<^verbatim>\<open>src/cmd/root.go\<close> is the revision with include paths and sequential transfers. Where
  both define a function of the same name with different bodies, the definitions taken from
  \<^verbatim>\<open>src/cmd/root.go\<close> carry the suffix \<open>_seq\<close>.
\<close>

subsection \<open>Package-level variables\<close>

text \<open>
  The flags of the command, read by the functions below: \<^verbatim>\<open>includePatterns\<close> and
  \<^verbatim>\<open>maxConcurrentTransfers\<close> exist in \<^verbatim>\<open>part_000\<close> only, \<^verbatim>\<open>includePaths\<close> in \<^verbatim>\<open>root.go\<close> only.
  A \<^verbatim>\<open>time.Duration\<close> is a count of nanoseconds.
\<close>

record globals =
  sourceDir :: string
  backupDir :: string
  schedulePeriod :: int
  includePatterns :: "string list"
  maxConcurrentTransfers :: int
  includePaths :: "string list"

subsection \<open>Inclusion filters\<close>

text \<open>
  \<^verbatim>\<open>shouldInclude\<close> (\<^verbatim>\<open>part_000\<close>, lines 178-188): true when there are no patterns, otherwise
  the loop returns true at the first pattern contained in the base name.
\<close>

fun shouldInclude_loop :: "string list \<Rightarrow> string \<Rightarrow> bool" where
  "shouldInclude_loop [] path = False"
| "shouldInclude_loop (pattern # rest) path =
     (if strings_Contains (filepath_Base path) pattern then True
      else shouldInclude_loop rest path)"

definition shouldInclude :: "globals \<Rightarrow> string \<Rightarrow> bool" where
  "shouldInclude g path =
     (if length (includePatterns g) = 0 then True
      else shouldInclude_loop (includePatterns g) path)"

text \<open>\<^verbatim>\<open>matchesAnyInclude\<close> (\<^verbatim>\<open>root.go\<close>, lines 202-209): no test for an empty list.\<close>

fun matchesAnyInclude :: "string \<Rightarrow> string list \<Rightarrow> bool" where
  "matchesAnyInclude path [] = False"
| "matchesAnyInclude path (include # rest) =
     (if strings_Contains (filepath_Base path) include
         \<or> strings_Contains (filepath_Dir path) include then True
      else matchesAnyInclude path rest)"

text \<open>\<^verbatim>\<open>shouldWatch\<close> (\<^verbatim>\<open>root.go\<close>, lines 211-221): the same loop behind a test for an empty list.\<close>

definition shouldWatch :: "string \<Rightarrow> string list \<Rightarrow> bool" where
  "shouldWatch path includes =
     (if length includes = 0 then True else matchesAnyInclude path includes)"

text \<open>
  \<^verbatim>\<open>syncDirectories\<close> of \<^verbatim>\<open>root.go\<close> copies the includes into a map (lines 162-165), here a
  list of key and value with one entry per key, and skips an entry of the walk when
  \<^verbatim>\<open>len(includeMap) > 0 && !matchesAnyInclude(path, includes)\<close> (line 172).
\<close>

definition includeMap :: "string list \<Rightarrow> (string \<times> bool) list" where
  "includeMap includes = fold (\<lambda>includePath m. AList.update includePath True m) includes []"

definition filtered_out :: "string list \<Rightarrow> string \<Rightarrow> bool" where
  "filtered_out includes path =
     (length (includeMap includes) > 0 \<and> \<not> matchesAnyInclude path includes)"

subsection \<open>Staleness\<close>

text \<open>
  \<^verbatim>\<open>shouldCopyFile\<close> (the same in both revisions; \<^verbatim>\<open>part_000\<close>, lines 167-176): true when
  \<^verbatim>\<open>os.Stat(dst)\<close> reports that the destination does not exist, false on any other error,
  otherwise whether the source was modified after the destination.
\<close>

definition shouldCopyFile :: "world \<Rightarrow> string \<Rightarrow> string \<Rightarrow> fileInfo \<Rightarrow> bool" where
  "shouldCopyFile w src dst srcInfo =
     (case os_Stat w dst of
        Inl err \<Rightarrow> if os_IsNotExist (Some err) then True else False
      | Inr dstInfo \<Rightarrow> time_After (fi_ModTime srcInfo) (fi_ModTime dstInfo))"

subsection \<open>Throughput\<close>

text \<open>
  \<^verbatim>\<open>calculateMBPerSecond(size, elapsed)\<close> (\<^verbatim>\<open>part_000\<close>, lines 240-245); \<open>elapsed\<close> is a
  \<^verbatim>\<open>time.Duration\<close>.
\<close>

definition calculateMBPerSecond :: "int \<Rightarrow> int \<Rightarrow> real" where
  "calculateMBPerSecond fileSize elapsed =
     (if Seconds elapsed = 0 then 0
      else real_of_int fileSize / (Seconds elapsed * 1024 * 1024))"

text \<open>\<^verbatim>\<open>formatBytesPerSecond\<close> (\<^verbatim>\<open>root.go\<close>, lines 287-293).\<close>

definition formatBytesPerSecond :: "int \<Rightarrow> int \<Rightarrow> string" where
  "formatBytesPerSecond fileSize elapsed =
     (if Seconds elapsed = 0 then ''0 MB/s''
      else let mbps = real_of_int fileSize / (1024 * 1024) / Seconds elapsed
           in sprintf_2f mbps @ '' MB/s'')"

subsection \<open>The transfer of one file\<close>

text \<open>
  \<^verbatim>\<open>copyFileWithProgress\<close> (\<^verbatim>\<open>part_000\<close>, lines 190-238; \<^verbatim>\<open>root.go\<close>, lines 234-285). The two
  revisions differ in the completion line only, which is the parameter \<open>report\<close> of the
  common body. The progress bar is output only and left out.
\<close>

definition copy_body ::
  "(string \<Rightarrow> fileInfo \<Rightarrow> int \<Rightarrow> line) \<Rightarrow> world \<Rightarrow> string \<Rightarrow> string \<Rightarrow> error option \<times> world" where
  "copy_body report w src dst =
     (case os_Open w src of
        Inl err \<Rightarrow> (Some err, w)
      | Inr srcFile \<Rightarrow>
          (case os_Create w dst of
             (Some err, w1) \<Rightarrow> (Some err, w1)
           | (None, w1) \<Rightarrow>
               (case file_Stat w1 src of
                  Inl err \<Rightarrow> (Some err, w1)
                | Inr srcInfo \<Rightarrow>
                    (case io_Copy w1 dst src of
                       (Some err, w2) \<Rightarrow> (Some err, w2)
                     | (None, w2) \<Rightarrow>
                         (let w3 = println (report src srcInfo (took w src)) w2
                          in case file_Sync w3 dst of
                               Some err \<Rightarrow> (Some err, w3)
                             | None \<Rightarrow> os_Chmod w3 dst (fi_Mode srcInfo))))))"

definition completion_line :: "string \<Rightarrow> fileInfo \<Rightarrow> int \<Rightarrow> line" where
  "completion_line src srcInfo elapsedTime =
     CopyingDone (filepath_Base src)
       (calculateMBPerSecond (fi_Size srcInfo) elapsedTime) (Seconds elapsedTime)"

definition copyFileWithProgress :: "world \<Rightarrow> string \<Rightarrow> string \<Rightarrow> error option \<times> world" where
  "copyFileWithProgress w src dst = copy_body completion_line w src dst"

definition completion_line_seq :: "string \<Rightarrow> fileInfo \<Rightarrow> int \<Rightarrow> line" where
  "completion_line_seq src srcInfo elapsedTime =
     CopyingDoneText (filepath_Base src)
       (formatBytesPerSecond (fi_Size srcInfo) elapsedTime)
       (sprintf_2f (Seconds elapsedTime) @ '' seconds'')"

definition copyFileWithProgress_seq :: "world \<Rightarrow> string \<Rightarrow> string \<Rightarrow> error option \<times> world" where
  "copyFileWithProgress_seq w src dst = copy_body completion_line_seq w src dst"

subsection \<open>Watch mode\<close>

text \<open>
  An event of \<^verbatim>\<open>fsnotify\<close> (v1.7.0): the changed path and a bit set of operations,
  \<^verbatim>\<open>Create Op = 1 << iota\<close>, then \<^verbatim>\<open>Write\<close>, \<^verbatim>\<open>Remove\<close>, \<^verbatim>\<open>Rename\<close>, \<^verbatim>\<open>Chmod\<close>.
\<close>

record event =
  Name :: string
  Op :: "32 word"

definition fsnotify_Create :: "32 word" where "fsnotify_Create = 1"
definition fsnotify_Write :: "32 word" where "fsnotify_Write = 2"
definition fsnotify_Remove :: "32 word" where "fsnotify_Remove = 4"
definition fsnotify_Rename :: "32 word" where "fsnotify_Rename = 8"
definition fsnotify_Chmod :: "32 word" where "fsnotify_Chmod = 16"

text \<open>
  The body of the event case of the watch loop (\<^verbatim>\<open>part_000\<close>, lines 102-111). The error
  that \<^verbatim>\<open>copyFileWithProgress\<close> returns is not looked at.
\<close>

definition onEvent :: "globals \<Rightarrow> event \<Rightarrow> world \<Rightarrow> world" where
  "onEvent g ev w =
     (if (Op ev AND fsnotify_Write = fsnotify_Write \<or> Op ev AND fsnotify_Create = fsnotify_Create)
         \<and> shouldInclude g (Name ev) then
        (let w1 = println (DetectedModification (Name ev)) w
         in case filepath_Rel (sourceDir g) (Name ev) of
              Inl err \<Rightarrow> println (ErrorGettingRelativePath err) w1
            | Inr relPath \<Rightarrow>
                (let destPath = filepath_Join (backupDir g) relPath
                 in snd (copyFileWithProgress w1 (Name ev) destPath)))
      else w)"

text \<open>The same in \<^verbatim>\<open>root.go\<close> (lines 137-148), with \<^verbatim>\<open>shouldWatch\<close> as the filter.\<close>

definition onEvent_seq :: "globals \<Rightarrow> event \<Rightarrow> world \<Rightarrow> world" where
  "onEvent_seq g ev w =
     (if Op ev AND fsnotify_Write = fsnotify_Write \<or> Op ev AND fsnotify_Create = fsnotify_Create then
        (if shouldWatch (Name ev) (includePaths g) then
           (let w1 = println (DetectedModification (Name ev)) w
            in case filepath_Rel (sourceDir g) (Name ev) of
                 Inl err \<Rightarrow> println (ErrorGettingRelativePath err) w1
               | Inr relPath \<Rightarrow>
                   (let destPath = filepath_Join (backupDir g) relPath
                    in snd (copyFileWithProgress_seq w1 (Name ev) destPath)))
         else w)
      else w)"

text \<open>
  The watch loop (\<^verbatim>\<open>part_000\<close>, lines 96-118) on what the two channels of the watcher
  deliver, in the order the \<^verbatim>\<open>select\<close> takes it: an event, an error, or a closed channel,
  which ends the loop. At the end of the list the loop waits.
\<close>

datatype delivery = Event event | WatchError error | Closed

fun watch_loop :: "(event \<Rightarrow> world \<Rightarrow> world) \<Rightarrow> delivery list \<Rightarrow> world \<Rightarrow> world" where
  "watch_loop handler [] w = w"
| "watch_loop handler (Event ev # rest) w = watch_loop handler rest (handler ev w)"
| "watch_loop handler (WatchError err # rest) w = watch_loop handler rest (println (ErrorLine err) w)"
| "watch_loop handler (Closed # rest) w = w"

text \<open>
  The start of \<^verbatim>\<open>runRealTimeSync\<close>. \<open>watched\<close> lists the paths given to \<^verbatim>\<open>watcher.Add\<close>,
  \<open>pathsToWatch\<close> is the local slice of that name in \<^verbatim>\<open>root.go\<close>, \<open>looping\<close> tells whether the
  function reached its watch loop.
\<close>

record startup =
  watched :: "string list"
  pathsToWatch :: "string list"
  looping :: bool

definition watcher_Add :: "world \<Rightarrow> string \<Rightarrow> string list \<Rightarrow> error option \<times> string list" where
  "watcher_Add w path ws =
     (case resolve w SysInotifyAddWatch path of
        Inl err \<Rightarrow> (Some err, ws)
      | Inr n \<Rightarrow> (None, ws @ [path]))"

text \<open>The walk function that registers directories (\<^verbatim>\<open>part_000\<close>, lines 76-88).\<close>

fun register_fn :: "world \<Rightarrow> visit \<Rightarrow> string list \<Rightarrow> error option \<times> string list" where
  "register_fn w (Failed path info err) ws = (Some err, ws)"
| "register_fn w (Entry path info) ws =
     (if fi_IsDir info then watcher_Add w path ws else (None, ws))"

text \<open>\<^verbatim>\<open>runRealTimeSync\<close> of \<^verbatim>\<open>part_000\<close> up to its loop (lines 66-94).\<close>

definition start_watching :: "globals \<Rightarrow> world \<Rightarrow> startup \<times> world" where
  "start_watching g w =
     (let w1 = println StartingRealTimeSync w
      in case faults w1 SysInotifyInit [] of
           Some e \<Rightarrow>
             (\<lparr>watched = [], pathsToWatch = [], looping = False\<rparr>,
              println (ErrorCreatingWatcher (PathError SysInotifyInit [] e)) w1)
         | None \<Rightarrow>
             (case filepath_Walk w1 (sourceDir g) (register_fn w1) [] of
                (Some err, ws) \<Rightarrow>
                  (\<lparr>watched = ws, pathsToWatch = [], looping = False\<rparr>,
                   println (ErrorWalkingSourceDirectory err) w1)
              | (None, ws) \<Rightarrow> (\<lparr>watched = ws, pathsToWatch = [], looping = True\<rparr>, w1)))"

text \<open>
  The loop over \<^verbatim>\<open>includePaths\<close> in \<^verbatim>\<open>root.go\<close> (lines 102-109): each absolute path is
  appended to \<^verbatim>\<open>pathsToWatch\<close>; the watcher is not touched.
\<close>

fun collect_paths :: "globals \<Rightarrow> world \<Rightarrow> string list \<Rightarrow> string list \<Rightarrow> error + string list" where
  "collect_paths g w [] acc = Inr acc"
| "collect_paths g w (includePath # rest) acc =
     (case filepath_Abs w (filepath_Join (sourceDir g) includePath) of
        Inl err \<Rightarrow> Inl err
      | Inr absPath \<Rightarrow> collect_paths g w rest (acc @ [absPath]))"

text \<open>\<^verbatim>\<open>runRealTimeSync\<close> of \<^verbatim>\<open>root.go\<close> up to its loop (lines 90-129).\<close>

definition start_watching_seq :: "globals \<Rightarrow> world \<Rightarrow> startup \<times> world" where
  "start_watching_seq g w =
     (let w1 = println StartingRealTimeSync w
      in case faults w1 SysInotifyInit [] of
           Some e \<Rightarrow>
             (\<lparr>watched = [], pathsToWatch = [], looping = False\<rparr>,
              println (ErrorCreatingWatcher (PathError SysInotifyInit [] e)) w1)
         | None \<Rightarrow>
             if length (includePaths g) > 0 then
               (case collect_paths g w1 (includePaths g) [] of
                  Inl err \<Rightarrow>
                    (\<lparr>watched = [], pathsToWatch = [], looping = False\<rparr>,
                     println (ErrorGettingAbsolutePath err) w1)
                | Inr paths \<Rightarrow> (\<lparr>watched = [], pathsToWatch = paths, looping = True\<rparr>, w1))
             else
               (case filepath_Walk w1 (sourceDir g) (register_fn w1) [] of
                  (Some err, ws) \<Rightarrow>
                    (\<lparr>watched = ws, pathsToWatch = [], looping = False\<rparr>,
                     println (ErrorWalkingSourceDirectory err) w1)
                | (None, ws) \<Rightarrow> (\<lparr>watched = ws, pathsToWatch = [], looping = True\<rparr>, w1)))"

subsection \<open>The sequential tree synchronizer\<close>



subsection \<open>The concurrent tree synchronizer\<close>

text \<open>
  \<^verbatim>\<open>syncDirectories\<close> of \<^verbatim>\<open>part_000\<close> (lines 124-165) starts a goroutine per transfer, so
  its runs are the interleavings of the steps of the walking goroutine and of the transfer
  goroutines. The state of one invocation: the calls the walk has still to make, where the
  walking goroutine stands, the counter of the \<^verbatim>\<open>sync.WaitGroup\<close>, the number of values in
  the buffered channel \<^verbatim>\<open>sem\<close>, the goroutines started so far, and the world.

  A transfer goroutine (lines 150-157) is \<open>Copying\<close> until \<^verbatim>\<open>copyFileWithProgress\<close> has
  returned and the error, if any, is printed; its deferred calls run last registered first:
  \<open>Releasing\<close> is before \<^verbatim>\<open><-sem\<close>, \<open>Finishing\<close> before \<^verbatim>\<open>wg.Done()\<close>; then it has \<open>Exited\<close>.

  The walking goroutine is \<open>Walking\<close> between two calls of the walk function; in a call
  that dispatches a transfer it is \<open>Sending\<close> after \<^verbatim>\<open>wg.Add(1)\<close> (line 148), before the send
  \<^verbatim>\<open>sem <- struct{}{}\<close> (line 149), which waits while the channel is full, and \<open>Spawning\<close>
  before the \<^verbatim>\<open>go\<close> statement (line 150). \<open>Returned err\<close>: \<^verbatim>\<open>syncDirectories\<close> has returned
  \<open>err\<close> to its caller.
\<close>

datatype phase = Copying | Releasing | Finishing | Exited

record goroutine =
  g_src :: string
  g_dst :: string
  g_phase :: phase

datatype walker = Walking | Sending string string | Spawning string string
  | Returned "error option"

record sync_state =
  calls :: "visit list"
  walker :: walker
  wg :: int
  sem :: nat
  goroutines :: "goroutine list"
  fsys :: world

text \<open>
  One call of the walk function (lines 128-162), up to its return or, for a file to
  transfer, up to \<^verbatim>\<open>wg.Add(1)\<close>. A returned error ends the walk, and \<^verbatim>\<open>syncDirectories\<close>
  returns what the walk returns (line 128).
\<close>

fun sync_fn :: "globals \<Rightarrow> string \<Rightarrow> string \<Rightarrow> visit \<Rightarrow> sync_state \<Rightarrow> sync_state" where
  "sync_fn g src dst (Failed path info err) s = s\<lparr>walker := Returned (Some err)\<rparr>"
| "sync_fn g src dst (Entry path info) s =
     (case filepath_Rel src path of
        Inl err \<Rightarrow> s\<lparr>walker := Returned (Some err)\<rparr>
      | Inr relPath \<Rightarrow>
          (let destPath = filepath_Join dst relPath
           in if fi_IsDir info then
                (case os_Stat (fsys s) destPath of
                   Inl err \<Rightarrow>
                     if os_IsNotExist (Some err) then
                       (case os_MkdirAll (fsys s) destPath (fi_Mode info) of
                          (Some err1, w') \<Rightarrow> s\<lparr>walker := Returned (Some err1), fsys := w'\<rparr>
                        | (None, w') \<Rightarrow> s\<lparr>fsys := w'\<rparr>)
                     else s
                 | Inr dstInfo \<Rightarrow> s)
              else if shouldCopyFile (fsys s) path destPath info \<and> shouldInclude g path then
                s\<lparr>wg := wg s + 1, walker := Sending path destPath\<rparr>
              else s))"

text \<open>
  A step of the walking goroutine, if it can take one. When no call is left the walk
  returns \<^verbatim>\<open>nil\<close> and so does \<^verbatim>\<open>syncDirectories\<close>, by the \<^verbatim>\<open>return\<close> statement of line 128: the
  statements \<^verbatim>\<open>wg.Wait()\<close> and \<^verbatim>\<open>return nil\<close> of lines 163-164 follow that \<^verbatim>\<open>return\<close> and are
  never executed.
\<close>

definition walker_step :: "globals \<Rightarrow> string \<Rightarrow> string \<Rightarrow> sync_state \<Rightarrow> sync_state option" where
  "walker_step g src dst s =
     (case walker s of
        Walking \<Rightarrow>
          (case calls s of
             [] \<Rightarrow> Some (s\<lparr>walker := Returned None\<rparr>)
           | v # vs \<Rightarrow> Some (sync_fn g src dst v (s\<lparr>calls := vs\<rparr>)))
      | Sending path destPath \<Rightarrow>
          if int (sem s) < maxConcurrentTransfers g
          then Some (s\<lparr>sem := Suc (sem s), walker := Spawning path destPath\<rparr>)
          else None
      | Spawning path destPath \<Rightarrow>
          Some (s\<lparr>goroutines := goroutines s
                     @ [\<lparr>g_src = path, g_dst = destPath, g_phase = Copying\<rparr>],
                  walker := Walking\<rparr>)
      | Returned err \<Rightarrow> None)"

text \<open>A step of the transfer goroutine number \<open>i\<close>, if it can take one.\<close>

definition goroutine_step :: "nat \<Rightarrow> sync_state \<Rightarrow> sync_state option" where
  "goroutine_step i s =
     (if i < length (goroutines s) then
        (let t = goroutines s ! i
         in case g_phase t of
              Copying \<Rightarrow>
                (case copyFileWithProgress (fsys s) (g_src t) (g_dst t) of
                   (Some err, w') \<Rightarrow>
                     Some (s\<lparr>fsys := println (ErrorCopyingFile err) w',
                             goroutines := (goroutines s)[i := t\<lparr>g_phase := Releasing\<rparr>]\<rparr>)
                 | (None, w') \<Rightarrow>
                     Some (s\<lparr>fsys := w',
                             goroutines := (goroutines s)[i := t\<lparr>g_phase := Releasing\<rparr>]\<rparr>))
            | Releasing \<Rightarrow>
                if sem s > 0
                then Some (s\<lparr>sem := sem s - 1,
                             goroutines := (goroutines s)[i := t\<lparr>g_phase := Finishing\<rparr>]\<rparr>)
                else None
            | Finishing \<Rightarrow>
                Some (s\<lparr>wg := wg s - 1,
                        goroutines := (goroutines s)[i := t\<lparr>g_phase := Exited\<rparr>]\<rparr>)
            | Exited \<Rightarrow> None)
      else None)"

text \<open>
  The start of an invocation (lines 125-128): \<^verbatim>\<open>make(chan struct{}, n)\<close> panics for a
  negative \<^verbatim>\<open>n\<close>, and then there is no run.
\<close>

definition sync_start :: "globals \<Rightarrow> string \<Rightarrow> world \<Rightarrow> sync_state option" where
  "sync_start g src w =
     (if maxConcurrentTransfers g < 0 then None
      else Some \<lparr>calls = filepath_Walk_calls w src, walker = Walking, wg = 0, sem = 0,
                 goroutines = [], fsys = w\<rparr>)"

text \<open>
  A schedule names who takes each step. \<open>run\<close> follows a schedule from a state and fails at
  a step that cannot be taken; \<open>syncDirectories_run\<close> does so from the start of an
  invocation \<^verbatim>\<open>syncDirectories(src, dst)\<close> in the world \<open>w\<close>. The runs of an invocation are its
  schedules, and the states it passes through are the results of their prefixes, which are
  schedules too.
\<close>

datatype turn = Walker | Transfer nat

fun run :: "globals \<Rightarrow> string \<Rightarrow> string \<Rightarrow> turn list \<Rightarrow> sync_state \<Rightarrow> sync_state option" where
  "run g src dst [] s = Some s"
| "run g src dst (Walker # rest) s =
     (case walker_step g src dst s of None \<Rightarrow> None | Some s' \<Rightarrow> run g src dst rest s')"
| "run g src dst (Transfer i # rest) s =
     (case goroutine_step i s of None \<Rightarrow> None | Some s' \<Rightarrow> run g src dst rest s')"

definition syncDirectories_run ::
  "globals \<Rightarrow> string \<Rightarrow> string \<Rightarrow> world \<Rightarrow> turn list \<Rightarrow> sync_state option" where
  "syncDirectories_run g src dst w schedule =
     (case sync_start g src w of None \<Rightarrow> None | Some s \<Rightarrow> run g src dst schedule s)"

text \<open>
  The transfers that are executing, and the goroutines that are not over. A goroutine holds
  a value of the channel from its start until its \<^verbatim>\<open><-sem\<close>; the walking goroutine has sent
  one more value when it stands before the \<^verbatim>\<open>go\<close> statement.
\<close>

definition executing :: "sync_state \<Rightarrow> nat" where
  "executing s = length (filter (\<lambda>t. g_phase t = Copying) (goroutines s))"

definition in_flight :: "sync_state \<Rightarrow> goroutine list" where
  "in_flight s = filter (\<lambda>t. g_phase t \<noteq> Exited) (goroutines s)"

definition held :: "goroutine \<Rightarrow> nat" where
  "held t = (if g_phase t = Copying \<or> g_phase t = Releasing then 1 else 0)"

fun sent :: "walker \<Rightarrow> nat" where
  "sent (Spawning path destPath) = 1"
| "sent _ = 0"

definition holding :: "sync_state \<Rightarrow> nat" where
  "holding s = sum_list (map held (goroutines s)) + sent (walker s)"

text \<open>
  The channel holds exactly the values of the goroutines that hold one, and never more
  than its capacity.
\<close>

definition balanced :: "globals \<Rightarrow> sync_state \<Rightarrow> bool" where
  "balanced g s = (sem s = holding s \<and> int (sem s) \<le> maxConcurrentTransfers g)"

subsection \<open>Example worlds\<close>

text \<open>
  A source tree \<^verbatim>\<open>/src\<close> with \<^verbatim>\<open>a.txt\<close> and \<^verbatim>\<open>sub/b.jpg\<close> and an empty destination \<^verbatim>\<open>/dst\<close>; no
  system call fails by the environment.
\<close>

definition example_tree :: node where
  "example_tree =
     Dir 493 \<lparr>sec = 100, nsec = 0\<rparr>
       [(''src'', Dir 493 \<lparr>sec = 100, nsec = 0\<rparr>
          [(''a.txt'', File 420 \<lparr>sec = 200, nsec = 0\<rparr> ''hello''),
           (''sub'', Dir 493 \<lparr>sec = 100, nsec = 0\<rparr>
              [(''b.jpg'', File 420 \<lparr>sec = 200, nsec = 0\<rparr> ''image'')])]),
        (''dst'', Dir 493 \<lparr>sec = 100, nsec = 0\<rparr> [])]"

definition example_world :: world where
  "example_world =
     \<lparr>root = example_tree, cwd = ''/'', umask = 18, now = \<lparr>sec = 300, nsec = 0\<rparr>,
      stdout = [], faults = (\<lambda>call path. None), took = (\<lambda>path. 1000000)\<rparr>"

definition example_globals :: globals where
  "example_globals =
     \<lparr>sourceDir = ''/src'', backupDir = ''/dst'', schedulePeriod = 0, includePatterns = [],
      maxConcurrentTransfers = 1, includePaths = []\<rparr>"


section \<open>Properties\<close>

subsection \<open>Strings and paths\<close>

lemma index_from_bounds: "index_from i s sub = - 1 \<or> index_from i s sub \<ge> int i"
  by (induction s arbitrary: i) (auto, force)

lemma index_from_sublist: "index_from i s sub \<ge> 0 \<longleftrightarrow> sublist sub s"
proof (induction s arbitrary: i)
  case Nil
  then show ?case by simp
next
  case (Cons c cs)
  then show ?case by (simp add: sublist_Cons_right)
qed

lemma strings_Contains_iff: "strings_Contains s sub \<longleftrightarrow> sublist sub s"
  by (simp add: strings_Contains_def strings_Index_def index_from_sublist)

lemma suffix_takeWhile_rev: "suffix (rev (takeWhile P (rev xs))) xs"
  by (metis suffix_def rev_append rev_rev_ident takeWhile_dropWhile_id)

lemma prefix_dropWhile_rev: "prefix (rev (dropWhile P (rev xs))) xs"
  by (metis prefix_def rev_append rev_rev_ident takeWhile_dropWhile_id)

lemma filepath_Base_sublist:
  assumes "path \<noteq> []"
  shows "sublist (filepath_Base path) path"
proof -
  let ?stripped = "rev (dropWhile isSep (rev path))"
  let ?elem = "rev (takeWhile (\<lambda>c. \<not> isSep c) (rev ?stripped))"
  have s1: "sublist ?stripped path"
    using prefix_dropWhile_rev by (rule prefix_imp_sublist)
  have s2: "sublist ?elem ?stripped"
    using suffix_takeWhile_rev by (rule suffix_imp_sublist)
  show ?thesis
  proof (cases "?elem = []")
    case False
    then have "filepath_Base path = ?elem"
      using assms by (simp add: filepath_Base_def Let_def)
    then show ?thesis using s1 s2 sublist_order.order_trans by metis
  next
    case True
    have "?stripped = []"
    proof (rule ccontr)
      assume ne: "?stripped \<noteq> []"
      then have "rev ?stripped \<noteq> []" by simp
      then obtain c cs where cs: "rev ?stripped = c # cs" by (cases "rev ?stripped") auto
      then have "dropWhile isSep (rev path) = c # cs" by simp
      then have "\<not> isSep c" by (metis hd_dropWhile list.sel(1) list.distinct(1))
      then have "takeWhile (\<lambda>c. \<not> isSep c) (rev ?stripped) \<noteq> []" using cs by simp
      then show False using True by simp
    qed
    then have "dropWhile isSep (rev path) = []" by simp
    then have all: "\<forall>c \<in> set path. isSep c" by simp
    obtain a as where "path = a # as" using assms by (cases path) auto
    then have "path = [CHR ''/''] @ as" using all by (simp add: isSep_def)
    then have "sublist ''/'' path" by (metis prefixI prefix_imp_sublist)
    moreover have "filepath_Base path = ''/''"
      using assms True by (simp add: filepath_Base_def Let_def)
    ultimately show ?thesis by simp
  qed
qed

lemma shouldInclude_loop_iff:
  "shouldInclude_loop R P \<longleftrightarrow> (\<exists>p \<in> set R. sublist p (filepath_Base P))"
  by (induction R) (auto simp: strings_Contains_iff)

lemma matchesAnyInclude_iff:
  "matchesAnyInclude P R \<longleftrightarrow>
     (\<exists>p \<in> set R. sublist p (filepath_Base P) \<or> sublist p (filepath_Dir P))"
  by (induction R) (auto simp: strings_Contains_iff)

lemma includeMap_keys: "fst ` set (fold (\<lambda>k m. AList.update k True m) ks m0) = fst ` set m0 \<union> set ks"
  by (induction ks arbitrary: m0) (auto simp: dom_update)

lemma len_includeMap: "includeMap R = [] \<longleftrightarrow> R = []"
proof -
  have "fst ` set (includeMap R) = set R"
    by (simp add: includeMap_def includeMap_keys)
  then show ?thesis by (cases R) auto
qed

subsection \<open>C1: returning before the transfers are over\<close>

text \<open>
  C1 fails: \<^verbatim>\<open>syncDirectories\<close> returns what \<^verbatim>\<open>filepath.Walk\<close> returns, and the \<^verbatim>\<open>wg.Wait()\<close>
  written after that \<^verbatim>\<open>return\<close> statement is never executed. With two permits, the walking
  goroutine alone takes nine steps on the example tree and returns \<^verbatim>\<open>nil\<close> while both
  transfers it started are still to copy their first byte. With the default of one permit,
  it returns while the transfer of \<^verbatim>\<open>sub/b.jpg\<close> has not copied anything yet.
\<close>

theorem C1_returns_with_transfers_in_flight:
  "map_option walker
     (syncDirectories_run (example_globals\<lparr>maxConcurrentTransfers := 2\<rparr>) ''/src'' ''/dst''
        example_world [Walker, Walker, Walker, Walker, Walker, Walker, Walker, Walker, Walker])
     = Some (Returned None)
   \<and> map_option in_flight
     (syncDirectories_run (example_globals\<lparr>maxConcurrentTransfers := 2\<rparr>) ''/src'' ''/dst''
        example_world [Walker, Walker, Walker, Walker, Walker, Walker, Walker, Walker, Walker])
     = Some [\<lparr>g_src = ''/src/a.txt'', g_dst = ''/dst/a.txt'', g_phase = Copying\<rparr>,
             \<lparr>g_src = ''/src/sub/b.jpg'', g_dst = ''/dst/sub/b.jpg'', g_phase = Copying\<rparr>]
   \<and> map_option (\<lambda>s. lookup (root (fsys s)) [''dst'', ''a.txt''])
     (syncDirectories_run (example_globals\<lparr>maxConcurrentTransfers := 2\<rparr>) ''/src'' ''/dst''
        example_world [Walker, Walker, Walker, Walker, Walker, Walker, Walker, Walker, Walker])
     = Some (Inl ENOENT)
   \<and> map_option walker
     (syncDirectories_run example_globals ''/src'' ''/dst'' example_world
        [Walker, Walker, Walker, Walker, Walker, Walker, Transfer 0, Transfer 0,
         Walker, Walker, Walker])
     = Some (Returned None)
   \<and> map_option in_flight
     (syncDirectories_run example_globals ''/src'' ''/dst'' example_world
        [Walker, Walker, Walker, Walker, Walker, Walker, Transfer 0, Transfer 0,
         Walker, Walker, Walker])
     = Some [\<lparr>g_src = ''/src/a.txt'', g_dst = ''/dst/a.txt'', g_phase = Finishing\<rparr>,
             \<lparr>g_src = ''/src/sub/b.jpg'', g_dst = ''/dst/sub/b.jpg'', g_phase = Copying\<rparr>]
   \<and> map_option (\<lambda>s. lookup (root (fsys s)) [''dst'', ''sub'', ''b.jpg''])
     (syncDirectories_run example_globals ''/src'' ''/dst'' example_world
        [Walker, Walker, Walker, Walker, Walker, Walker, Transfer 0, Transfer 0,
         Walker, Walker, Walker])
     = Some (Inl ENOENT)"
proof -
  let ?two = "syncDirectories_run (example_globals\<lparr>maxConcurrentTransfers := 2\<rparr>) ''/src'' ''/dst''
      example_world [Walker, Walker, Walker, Walker, Walker, Walker, Walker, Walker, Walker]"
  let ?one = "syncDirectories_run example_globals ''/src'' ''/dst'' example_world
      [Walker, Walker, Walker, Walker, Walker, Walker, Transfer 0, Transfer 0,
       Walker, Walker, Walker]"
  have c1: "map_option walker ?two = Some (Returned None)"
    by code_simp
  have c2: "map_option in_flight ?two
      = Some [\<lparr>g_src = ''/src/a.txt'', g_dst = ''/dst/a.txt'', g_phase = Copying\<rparr>,
              \<lparr>g_src = ''/src/sub/b.jpg'', g_dst = ''/dst/sub/b.jpg'', g_phase = Copying\<rparr>]"
    by code_simp
  have c3: "map_option (\<lambda>s. lookup (root (fsys s)) [''dst'', ''a.txt'']) ?two = Some (Inl ENOENT)"
    by code_simp
  have c4: "map_option walker ?one = Some (Returned None)"
    by code_simp
  have c5: "map_option in_flight ?one
      = Some [\<lparr>g_src = ''/src/a.txt'', g_dst = ''/dst/a.txt'', g_phase = Finishing\<rparr>,
              \<lparr>g_src = ''/src/sub/b.jpg'', g_dst = ''/dst/sub/b.jpg'', g_phase = Copying\<rparr>]"
    by code_simp
  have c6: "map_option (\<lambda>s. lookup (root (fsys s)) [''dst'', ''sub'', ''b.jpg'']) ?one
      = Some (Inl ENOENT)"
    by code_simp
  from c1 c2 c3 c4 c5 c6 show ?thesis
    by (intro conjI)
qed

subsection \<open>The concurrent tree synchronizer\<close>

lemma sum_held_update:
  "i < length ts \<Longrightarrow>
     sum_list (map held (ts[i := t])) + held (ts ! i) = sum_list (map held ts) + held t"
proof (induction ts arbitrary: i)
  case Nil
  then show ?case by simp
next
  case (Cons a ts)
  then show ?case by (cases i) auto
qed

lemma executing_le_holding: "executing s \<le> holding s"
proof -
  have "length (filter (\<lambda>t. g_phase t = Copying) ts) \<le> sum_list (map held ts)" for ts
    by (induction ts) (auto simp: held_def)
  then show ?thesis
    by (simp add: executing_def holding_def trans_le_add1)
qed

lemma sync_fn_frame:
  "goroutines (sync_fn g src dst v s) = goroutines s"
  "sem (sync_fn g src dst v s) = sem s"
  "sent (walker s) = 0 \<Longrightarrow> sent (walker (sync_fn g src dst v s)) = 0"
  by (cases v; simp add: Let_def split: sum.splits prod.splits option.splits)+

lemma sync_start_balanced:
  assumes "sync_start g src w = Some s"
  shows "balanced g s"
  using assms by (auto simp: sync_start_def balanced_def holding_def split: if_splits)

lemma walker_step_balanced:
  assumes "balanced g s" and "walker_step g src dst s = Some s'"
  shows "balanced g s'"
proof (cases "walker s")
  case Walking
  show ?thesis
  proof (cases "calls s")
    case Nil
    with Walking assms show ?thesis
      by (auto simp: walker_step_def balanced_def holding_def)
  next
    case (Cons v vs)
    with Walking assms have s': "s' = sync_fn g src dst v (s\<lparr>calls := vs\<rparr>)"
      by (simp add: walker_step_def)
    have "sent (walker (s\<lparr>calls := vs\<rparr>)) = 0"
      using Walking by simp
    then have "sent (walker s') = 0"
      unfolding s' by (rule sync_fn_frame(3))
    with Walking assms(1) show ?thesis
      by (simp add: s' balanced_def holding_def sync_fn_frame)
  qed
next
  case (Sending path destPath)
  with assms show ?thesis
    by (auto simp: walker_step_def balanced_def holding_def split: if_splits)
next
  case (Spawning path destPath)
  with assms show ?thesis
    by (auto simp: walker_step_def balanced_def holding_def held_def)
next
  case (Returned err)
  with assms show ?thesis
    by (simp add: walker_step_def)
qed

lemma goroutine_step_balanced:
  assumes "balanced g s" and "goroutine_step i s = Some s'"
  shows "balanced g s'"
proof -
  from assms(2) have i: "i < length (goroutines s)"
    by (simp add: goroutine_step_def split: if_splits)
  let ?t = "goroutines s ! i"
  note upd = sum_held_update [OF i]
  show ?thesis
  proof (cases "g_phase ?t")
    case Copying
    then have s': "goroutines s' = (goroutines s)[i := ?t\<lparr>g_phase := Releasing\<rparr>]"
      "sem s' = sem s" "walker s' = walker s"
      using assms(2) i
      by (auto simp: goroutine_step_def Let_def split: prod.splits option.splits)
    have "held (?t\<lparr>g_phase := Releasing\<rparr>) = held ?t"
      using Copying by (simp add: held_def)
    with upd [of "?t\<lparr>g_phase := Releasing\<rparr>"] assms(1) s' show ?thesis
      by (simp add: balanced_def holding_def)
  next
    case Releasing
    then have s': "goroutines s' = (goroutines s)[i := ?t\<lparr>g_phase := Finishing\<rparr>]"
      "sem s' = sem s - 1" "walker s' = walker s" "sem s > 0"
      using assms(2) i
      by (auto simp: goroutine_step_def Let_def split: if_splits)
    have "held (?t\<lparr>g_phase := Finishing\<rparr>) = 0" "held ?t = 1"
      using Releasing by (simp_all add: held_def)
    with upd [of "?t\<lparr>g_phase := Finishing\<rparr>"] assms(1) s' show ?thesis
      by (simp add: balanced_def holding_def)
  next
    case Finishing
    then have s': "goroutines s' = (goroutines s)[i := ?t\<lparr>g_phase := Exited\<rparr>]"
      "sem s' = sem s" "walker s' = walker s"
      using assms(2) i
      by (auto simp: goroutine_step_def Let_def)
    have "held (?t\<lparr>g_phase := Exited\<rparr>) = 0" "held ?t = 0"
      using Finishing by (simp_all add: held_def)
    with upd [of "?t\<lparr>g_phase := Exited\<rparr>"] assms(1) s' show ?thesis
      by (simp add: balanced_def holding_def)
  next
    case Exited
    with assms(2) i show ?thesis
      by (simp add: goroutine_step_def Let_def)
  qed
qed

lemma run_balanced:
  assumes "balanced g s" and "run g src dst schedule s = Some s'"
  shows "balanced g s'"
  using assms
proof (induction schedule arbitrary: s)
  case Nil
  then show ?case by simp
next
  case (Cons turn rest)
  show ?case
  proof (cases turn)
    case Walker
    with Cons.prems(2) obtain s1 where "walker_step g src dst s = Some s1"
      and "run g src dst rest s1 = Some s'"
      by (auto split: option.splits)
    with Cons.IH Cons.prems(1) walker_step_balanced show ?thesis
      by blast
  next
    case (Transfer i)
    with Cons.prems(2) obtain s1 where "goroutine_step i s = Some s1"
      and "run g src dst rest s1 = Some s'"
      by (auto split: option.splits)
    with Cons.IH Cons.prems(1) goroutine_step_balanced show ?thesis
      by blast
  qed
qed

lemma syncDirectories_run_balanced:
  assumes "syncDirectories_run g src dst w schedule = Some s"
  shows "balanced g s"
proof -
  from assms obtain s0 where "sync_start g src w = Some s0"
    and "run g src dst schedule s0 = Some s"
    by (auto simp: syncDirectories_run_def split: option.splits)
  then show ?thesis
    using sync_start_balanced run_balanced by blast
qed

text \<open>
  C2. In every state that an invocation of \<^verbatim>\<open>syncDirectories\<close> reaches, under every
  schedule of its goroutines, the transfers that are executing are at most as many as the
  values in the channel \<^verbatim>\<open>sem\<close>, which are at most \<^verbatim>\<open>maxConcurrentTransfers\<close>. The transfers
  counted are those the invocation has started.
\<close>

theorem C2_bounded_transfers:
  assumes "syncDirectories_run g src dst w schedule = Some s"
  shows "int (executing s) \<le> maxConcurrentTransfers g
    \<and> executing s \<le> sem s \<and> int (sem s) \<le> maxConcurrentTransfers g"
proof -
  have "balanced g s"
    using assms by (rule syncDirectories_run_balanced)
  then have "sem s = holding s" and "int (sem s) \<le> maxConcurrentTransfers g"
    by (simp_all add: balanced_def)
  moreover have "executing s \<le> holding s"
    by (rule executing_le_holding)
  ultimately show ?thesis
    by simp
qed

text \<open>
  C2 at work with one permit: after four steps of the walking goroutine the transfer of
  \<^verbatim>\<open>a.txt\<close> is executing and holds the only value of the channel.
\<close>

theorem C2_bounded_transfers_witness:
  "\<exists>s. syncDirectories_run example_globals ''/src'' ''/dst'' example_world
          [Walker, Walker, Walker, Walker] = Some s
      \<and> maxConcurrentTransfers example_globals = 1
      \<and> executing s = 1 \<and> sem s = 1
      \<and> int (executing s) \<le> maxConcurrentTransfers example_globals"
proof -
  let ?r = "syncDirectories_run example_globals ''/src'' ''/dst'' example_world
      [Walker, Walker, Walker, Walker]"
  have e: "map_option executing ?r = Some 1"
    by code_simp
  have m: "map_option sem ?r = Some 1"
    by code_simp
  have n: "maxConcurrentTransfers example_globals = 1"
    by (simp add: example_globals_def)
  from e obtain s where s: "?r = Some s" and "executing s = 1"
    by (cases ?r) auto
  moreover from m s have "sem s = 1"
    by simp
  moreover have "int (executing s) \<le> maxConcurrentTransfers example_globals"
    using C2_bounded_transfers [OF s] by simp
  ultimately show ?thesis
    using n by blast
qed

subsection \<open>C3: the inclusion filters\<close>

text \<open>
  C3, as stated, fails twice. \<^verbatim>\<open>matchesAnyInclude\<close> returns false for an empty rule set: it has
  no test for one, and its caller skips it then. And a pattern that occurs nowhere in the
  path can still match in the directory-scoped filters, because \<^verbatim>\<open>filepath.Dir\<close> of a path
  without a separator is \<^verbatim>\<open>.\<close>: the pattern \<^verbatim>\<open>.\<close> matches the path \<^verbatim>\<open>foo\<close>.
\<close>

theorem C3_filter_counterexample:
  "\<not> matchesAnyInclude ''/src/a.txt'' []
   \<and> shouldWatch ''foo'' [''.''] \<and> matchesAnyInclude ''foo'' [''.'']
   \<and> \<not> sublist ''.'' ''foo''"
  by code_simp

text \<open>
  C3, amended. \<^verbatim>\<open>shouldInclude\<close> is true iff there is no pattern or some pattern is a
  substring of the base name of the path. \<^verbatim>\<open>shouldWatch\<close>, and the test of \<^verbatim>\<open>syncDirectories\<close>
  in \<^verbatim>\<open>root.go\<close> that lets an entry pass, are true iff there is no pattern or some pattern is a
  substring of the base name or of \<^verbatim>\<open>filepath.Dir\<close> of the path; \<^verbatim>\<open>matchesAnyInclude\<close> alone is
  true iff some pattern is such a substring. An empty pattern matches every path. A pattern
  that is a substring neither of the base name nor of \<^verbatim>\<open>filepath.Dir\<close> of the path matches
  nothing, and for \<^verbatim>\<open>shouldInclude\<close> a pattern that occurs nowhere in a non-empty path matches
  nothing.
\<close>

theorem C3_inclusion_filter:
  "(shouldInclude g P \<longleftrightarrow>
      includePatterns g = [] \<or> (\<exists>p \<in> set (includePatterns g). sublist p (filepath_Base P)))
   \<and> (shouldWatch P R \<longleftrightarrow>
      R = [] \<or> (\<exists>p \<in> set R. sublist p (filepath_Base P) \<or> sublist p (filepath_Dir P)))
   \<and> (\<not> filtered_out R P \<longleftrightarrow>
      R = [] \<or> (\<exists>p \<in> set R. sublist p (filepath_Base P) \<or> sublist p (filepath_Dir P)))
   \<and> (matchesAnyInclude P R \<longleftrightarrow>
      (\<exists>p \<in> set R. sublist p (filepath_Base P) \<or> sublist p (filepath_Dir P)))
   \<and> ([] \<in> set (includePatterns g) \<longrightarrow> shouldInclude g P)
   \<and> ([] \<in> set R \<longrightarrow> shouldWatch P R \<and> \<not> filtered_out R P)
   \<and> (\<not> sublist q (filepath_Base P) \<and> \<not> sublist q (filepath_Dir P) \<longrightarrow>
        \<not> shouldWatch P [q] \<and> filtered_out [q] P)
   \<and> (P \<noteq> [] \<and> \<not> sublist q P \<longrightarrow> \<not> shouldInclude (g\<lparr>includePatterns := [q]\<rparr>) P)"
proof -
  have a: "shouldInclude g P \<longleftrightarrow>
      includePatterns g = [] \<or> (\<exists>p \<in> set (includePatterns g). sublist p (filepath_Base P))"
    for g
    by (auto simp: shouldInclude_def shouldInclude_loop_iff)
  have b: "shouldWatch P R \<longleftrightarrow>
      R = [] \<or> (\<exists>p \<in> set R. sublist p (filepath_Base P) \<or> sublist p (filepath_Dir P))"
    for R
    by (auto simp: shouldWatch_def matchesAnyInclude_iff)
  have c: "\<not> filtered_out R P \<longleftrightarrow>
      R = [] \<or> (\<exists>p \<in> set R. sublist p (filepath_Base P) \<or> sublist p (filepath_Dir P))"
    for R
    by (auto simp: filtered_out_def len_includeMap matchesAnyInclude_iff)
  have d: "matchesAnyInclude P R \<longleftrightarrow>
      (\<exists>p \<in> set R. sublist p (filepath_Base P) \<or> sublist p (filepath_Dir P))"
    by (rule matchesAnyInclude_iff)
  have e: "[] \<in> set (includePatterns g) \<longrightarrow> shouldInclude g P"
    unfolding a by (metis sublist_Nil_left)
  have f: "[] \<in> set R \<longrightarrow> shouldWatch P R \<and> \<not> filtered_out R P"
    unfolding b c by (metis sublist_Nil_left)
  have h: "\<not> sublist q (filepath_Base P) \<and> \<not> sublist q (filepath_Dir P) \<longrightarrow>
        \<not> shouldWatch P [q] \<and> filtered_out [q] P"
    using b [of "[q]"] c [of "[q]"] by auto
  have i: "P \<noteq> [] \<and> \<not> sublist q P \<longrightarrow> \<not> shouldInclude (g\<lparr>includePatterns := [q]\<rparr>) P"
  proof (intro impI)
    assume asm: "P \<noteq> [] \<and> \<not> sublist q P"
    then have "sublist (filepath_Base P) P"
      using filepath_Base_sublist by blast
    then have "\<not> sublist q (filepath_Base P)"
      using asm sublist_order.order_trans by blast
    then show "\<not> shouldInclude (g\<lparr>includePatterns := [q]\<rparr>) P"
      by (simp add: a)
  qed
  from a [of g] b [of R] c [of R] d e f h i show ?thesis
    by (intro conjI)
qed

text \<open>
  The amended C3 at work: the rules \<^verbatim>\<open>report\<close> and the empty pattern let \<^verbatim>\<open>/src/image.png\<close>
  pass, the rule \<^verbatim>\<open>report\<close> alone does not.
\<close>

theorem C3_inclusion_filter_witness:
  "shouldInclude (example_globals\<lparr>includePatterns := [''report'', []]\<rparr>) ''/src/image.png''
   \<and> shouldWatch ''/src/image.png'' [''report'', []]
   \<and> \<not> filtered_out [''report'', []] ''/src/image.png''
   \<and> \<not> shouldWatch ''/src/image.png'' [''report'']
   \<and> filtered_out [''report''] ''/src/image.png''
   \<and> \<not> shouldInclude (example_globals\<lparr>includePatterns := [''report'']\<rparr>) ''/src/image.png''"
proof -
  have h1: "[] \<in> set (includePatterns (example_globals\<lparr>includePatterns := [''report'', []]\<rparr>))"
    by simp
  have h2: "[] \<in> set [''report'', []]"
    by simp
  have h3: "\<not> sublist ''report'' (filepath_Base ''/src/image.png'')
            \<and> \<not> sublist ''report'' (filepath_Dir ''/src/image.png'')"
    by code_simp
  have h4: "''/src/image.png'' \<noteq> [] \<and> \<not> sublist ''report'' ''/src/image.png''"
    by code_simp
  note inst = C3_inclusion_filter [of "example_globals\<lparr>includePatterns := [''report'', []]\<rparr>"
        "''/src/image.png''" "[''report'', []]" "''report''"]
  have c1: "shouldInclude (example_globals\<lparr>includePatterns := [''report'', []]\<rparr>) ''/src/image.png''"
    using inst h1 by blast
  have c2: "shouldWatch ''/src/image.png'' [''report'', []]
            \<and> \<not> filtered_out [''report'', []] ''/src/image.png''"
    using inst h2 by blast
  have c3: "\<not> shouldWatch ''/src/image.png'' [''report'']
            \<and> filtered_out [''report''] ''/src/image.png''"
    using inst h3 by blast
  have c4: "\<not> shouldInclude (example_globals\<lparr>includePatterns := [''report'', []]\<rparr>
                                \<lparr>includePatterns := [''report'']\<rparr>) ''/src/image.png''"
    using inst h4 by blast
  have "example_globals\<lparr>includePatterns := [''report'', []]\<rparr>\<lparr>includePatterns := [''report'']\<rparr>
        = example_globals\<lparr>includePatterns := [''report'']\<rparr>"
    by simp
  with c1 c2 c3 c4 show ?thesis
    by simp
qed

subsection \<open>C4: the staleness check\<close>

lemma os_Stat_cases:
  "(\<exists>e. os_Stat w dst = Inl (PathError SysStat dst e)) \<or> (\<exists>dstInfo. os_Stat w dst = Inr dstInfo)"
  by (auto simp: os_Stat_def resolve_def split: option.splits sum.splits)

lemma os_Stat_missing:
  assumes "faults w SysStat dst = None" and "dst \<noteq> []"
    and "lookup (root w) (locate w dst) = Inl e"
  shows "os_Stat w dst = Inl (PathError SysStat dst e)"
  using assms by (simp add: os_Stat_def resolve_def)

lemma os_Stat_fault:
  assumes "faults w SysStat dst = Some e"
  shows "os_Stat w dst = Inl (PathError SysStat dst e)"
  using assms by (simp add: os_Stat_def resolve_def)

text \<open>
  C4. \<^verbatim>\<open>shouldCopyFile\<close> is true when \<^verbatim>\<open>os.Stat\<close> reports that the destination does not exist
  (\<^verbatim>\<open>ENOENT\<close>: no entry of that name in an existing directory, with no failure imposed by the
  environment), false when \<^verbatim>\<open>os.Stat\<close> fails for another reason (a failure imposed by the
  environment, or a regular file in the place of a directory of the path), and otherwise
  true iff the source modification time is after the destination's: later seconds, or the
  same seconds and later nanoseconds; equal times give false. These are all the cases.
\<close>

theorem C4_shouldCopyFile:
  "(os_Stat w dst = Inl (PathError call path e) \<longrightarrow>
      shouldCopyFile w src dst srcInfo = (e = ENOENT))
   \<and> (faults w SysStat dst = None \<and> dst \<noteq> [] \<and> lookup (root w) (locate w dst) = Inl ENOENT \<longrightarrow>
      shouldCopyFile w src dst srcInfo)
   \<and> (faults w SysStat dst = None \<and> dst \<noteq> [] \<and> lookup (root w) (locate w dst) = Inl ENOTDIR \<longrightarrow>
      \<not> shouldCopyFile w src dst srcInfo)
   \<and> (faults w SysStat dst = Some e \<and> e \<noteq> ENOENT \<longrightarrow> \<not> shouldCopyFile w src dst srcInfo)
   \<and> (os_Stat w dst = Inr dstInfo \<longrightarrow>
      shouldCopyFile w src dst srcInfo =
        (sec (fi_ModTime srcInfo) > sec (fi_ModTime dstInfo)
         \<or> sec (fi_ModTime srcInfo) = sec (fi_ModTime dstInfo)
           \<and> nsec (fi_ModTime srcInfo) > nsec (fi_ModTime dstInfo)))
   \<and> (os_Stat w dst = Inr dstInfo \<and> fi_ModTime srcInfo = fi_ModTime dstInfo \<longrightarrow>
      \<not> shouldCopyFile w src dst srcInfo)
   \<and> ((\<exists>e. os_Stat w dst = Inl (PathError SysStat dst e)) \<or> (\<exists>dstInfo. os_Stat w dst = Inr dstInfo))"
proof (intro conjI impI)
  assume "os_Stat w dst = Inl (PathError call path e)"
  then show "shouldCopyFile w src dst srcInfo = (e = ENOENT)"
    by (simp add: shouldCopyFile_def)
next
  assume "faults w SysStat dst = None \<and> dst \<noteq> [] \<and> lookup (root w) (locate w dst) = Inl ENOENT"
  then have "os_Stat w dst = Inl (PathError SysStat dst ENOENT)"
    by (simp add: os_Stat_missing)
  then show "shouldCopyFile w src dst srcInfo"
    by (simp add: shouldCopyFile_def)
next
  assume "faults w SysStat dst = None \<and> dst \<noteq> [] \<and> lookup (root w) (locate w dst) = Inl ENOTDIR"
  then have "os_Stat w dst = Inl (PathError SysStat dst ENOTDIR)"
    by (simp add: os_Stat_missing)
  then show "\<not> shouldCopyFile w src dst srcInfo"
    by (simp add: shouldCopyFile_def)
next
  assume a: "faults w SysStat dst = Some e \<and> e \<noteq> ENOENT"
  then have "os_Stat w dst = Inl (PathError SysStat dst e)"
    by (simp add: os_Stat_fault)
  then show "\<not> shouldCopyFile w src dst srcInfo"
    using a by (simp add: shouldCopyFile_def)
next
  assume "os_Stat w dst = Inr dstInfo"
  then show "shouldCopyFile w src dst srcInfo =
        (sec (fi_ModTime srcInfo) > sec (fi_ModTime dstInfo)
         \<or> sec (fi_ModTime srcInfo) = sec (fi_ModTime dstInfo)
           \<and> nsec (fi_ModTime srcInfo) > nsec (fi_ModTime dstInfo))"
    by (simp add: shouldCopyFile_def time_After_def)
next
  assume "os_Stat w dst = Inr dstInfo \<and> fi_ModTime srcInfo = fi_ModTime dstInfo"
  then show "\<not> shouldCopyFile w src dst srcInfo"
    by (simp add: shouldCopyFile_def time_After_def)
next
  show "(\<exists>e. os_Stat w dst = Inl (PathError SysStat dst e)) \<or> (\<exists>dstInfo. os_Stat w dst = Inr dstInfo)"
    by (rule os_Stat_cases)
qed

text \<open>
  C4 at work in the example world: a missing destination is copied to; a destination below
  a regular file, a destination whose \<^verbatim>\<open>stat\<close> is denied and a destination of the same age
  are not; a source one nanosecond younger is copied.
\<close>

theorem C4_shouldCopyFile_witness:
  "shouldCopyFile example_world ''/src/a.txt'' ''/dst/a.txt''
     (info_of ''a.txt'' (File 420 \<lparr>sec = 200, nsec = 0\<rparr> ''hello''))
   \<and> \<not> shouldCopyFile example_world ''/src/a.txt'' ''/src/a.txt/x''
     (info_of ''a.txt'' (File 420 \<lparr>sec = 200, nsec = 0\<rparr> ''hello''))
   \<and> \<not> shouldCopyFile (example_world\<lparr>faults := \<lambda>call path. Some EACCES\<rparr>) ''/src/a.txt''
     ''/dst/a.txt'' (info_of ''a.txt'' (File 420 \<lparr>sec = 200, nsec = 0\<rparr> ''hello''))
   \<and> \<not> shouldCopyFile example_world ''/src/a.txt'' ''/src/a.txt''
     (info_of ''a.txt'' (File 420 \<lparr>sec = 200, nsec = 0\<rparr> ''hello''))
   \<and> shouldCopyFile example_world ''/src/a.txt'' ''/src/a.txt''
     (info_of ''a.txt'' (File 420 \<lparr>sec = 200, nsec = 1\<rparr> ''hello''))"
proof -
  let ?info = "info_of ''a.txt'' (File 420 \<lparr>sec = 200, nsec = 0\<rparr> ''hello'')"
  let ?later = "info_of ''a.txt'' (File 420 \<lparr>sec = 200, nsec = 1\<rparr> ''hello'')"
  let ?denied = "example_world\<lparr>faults := \<lambda>call path. Some EACCES\<rparr>"
  have h1: "faults example_world SysStat ''/dst/a.txt'' = None \<and> ''/dst/a.txt'' \<noteq> []
      \<and> lookup (root example_world) (locate example_world ''/dst/a.txt'') = Inl ENOENT"
    by code_simp
  have h2: "faults example_world SysStat ''/src/a.txt/x'' = None \<and> ''/src/a.txt/x'' \<noteq> []
      \<and> lookup (root example_world) (locate example_world ''/src/a.txt/x'') = Inl ENOTDIR"
    by code_simp
  have h3: "faults ?denied SysStat ''/dst/a.txt'' = Some EACCES \<and> EACCES \<noteq> ENOENT"
    by simp
  have h4: "os_Stat example_world ''/src/a.txt'' = Inr ?info"
    by code_simp
  have h5: "fi_ModTime ?info = fi_ModTime ?info"
    by simp
  have c1: "shouldCopyFile example_world ''/src/a.txt'' ''/dst/a.txt'' ?info"
    using C4_shouldCopyFile [of example_world "''/dst/a.txt''" SysStat "[]" ENOENT
        "''/src/a.txt''" ?info ?info] h1 by blast
  have c2: "\<not> shouldCopyFile example_world ''/src/a.txt'' ''/src/a.txt/x'' ?info"
    using C4_shouldCopyFile [of example_world "''/src/a.txt/x''" SysStat "[]" ENOENT
        "''/src/a.txt''" ?info ?info] h2 by blast
  have c3: "\<not> shouldCopyFile ?denied ''/src/a.txt'' ''/dst/a.txt'' ?info"
    using C4_shouldCopyFile [of ?denied "''/dst/a.txt''" SysStat "[]" EACCES
        "''/src/a.txt''" ?info ?info] h3 by blast
  have c4: "\<not> shouldCopyFile example_world ''/src/a.txt'' ''/src/a.txt'' ?info"
    using C4_shouldCopyFile [of example_world "''/src/a.txt''" SysStat "[]" ENOENT
        "''/src/a.txt''" ?info ?info] h4 h5 by blast
  have "shouldCopyFile example_world ''/src/a.txt'' ''/src/a.txt'' ?later =
        (sec (fi_ModTime ?later) > sec (fi_ModTime ?info)
         \<or> sec (fi_ModTime ?later) = sec (fi_ModTime ?info)
           \<and> nsec (fi_ModTime ?later) > nsec (fi_ModTime ?info))"
    using C4_shouldCopyFile [of example_world "''/src/a.txt''" SysStat "[]" ENOENT
        "''/src/a.txt''" ?later ?info] h4 by blast
  then have c5: "shouldCopyFile example_world ''/src/a.txt'' ''/src/a.txt'' ?later"
    by simp
  from c1 c2 c3 c4 c5 show ?thesis
    by blast
qed

subsection \<open>C5: what is registered when watching starts\<close>

text \<open>
  C5 fails in \<^verbatim>\<open>root.go\<close>. With the include list \<^verbatim>\<open>sub\<close>, \<^verbatim>\<open>runRealTimeSync\<close> computes the
  absolute path \<^verbatim>\<open>/src/sub\<close> and appends it to \<^verbatim>\<open>pathsToWatch\<close>, but no path is ever given to
  \<^verbatim>\<open>watcher.Add\<close>: the function reaches its loop with nothing registered. Without an include
  list, the directories \<^verbatim>\<open>/src\<close> and \<^verbatim>\<open>/src/sub\<close> are registered.
\<close>

theorem C5_include_list_registers_nothing:
  "fst (start_watching_seq (example_globals\<lparr>includePaths := [''sub'']\<rparr>) example_world)
     = \<lparr>watched = [], pathsToWatch = [''/src/sub''], looping = True\<rparr>
   \<and> fst (start_watching_seq example_globals example_world)
     = \<lparr>watched = [''/src'', ''/src/sub''], pathsToWatch = [], looping = True\<rparr>
   \<and> fst (start_watching (example_globals\<lparr>includePatterns := [''sub'']\<rparr>) example_world)
     = \<lparr>watched = [''/src'', ''/src/sub''], pathsToWatch = [], looping = True\<rparr>"
proof -
  have c1: "fst (start_watching_seq (example_globals\<lparr>includePaths := [''sub'']\<rparr>) example_world)
    = \<lparr>watched = [], pathsToWatch = [''/src/sub''], looping = True\<rparr>"
    by code_simp
  have c2: "fst (start_watching_seq example_globals example_world)
    = \<lparr>watched = [''/src'', ''/src/sub''], pathsToWatch = [], looping = True\<rparr>"
    by code_simp
  have c3: "fst (start_watching (example_globals\<lparr>includePatterns := [''sub'']\<rparr>) example_world)
    = \<lparr>watched = [''/src'', ''/src/sub''], pathsToWatch = [], looping = True\<rparr>"
    by code_simp
  from c1 c2 c3 show ?thesis
    by (intro conjI)
qed

subsection \<open>C6: a copy that fails\<close>










subsection \<open>C7: a destination directory that does not exist yet\<close>

text \<open>
  C7 fails in both revisions. \<^verbatim>\<open>/src/sub/b.jpg\<close> is written while \<^verbatim>\<open>/dst/sub\<close> does not exist:
  the handler prints the detected change and calls \<^verbatim>\<open>copyFileWithProgress\<close>, which fails in
  \<^verbatim>\<open>os.Create\<close> with \<^verbatim>\<open>ENOENT\<close>; the error is dropped, no directory is made and the tree is as it
  was.
\<close>

theorem C7_parent_directory_not_created:
  "lookup example_tree [''dst'', ''sub''] = Inl ENOENT
   \<and> fst (copyFileWithProgress example_world ''/src/sub/b.jpg'' ''/dst/sub/b.jpg'')
     = Some (PathError SysCreate ''/dst/sub/b.jpg'' ENOENT)
   \<and> root (onEvent example_globals \<lparr>Name = ''/src/sub/b.jpg'', Op = fsnotify_Write\<rparr> example_world)
     = example_tree
   \<and> stdout (onEvent example_globals \<lparr>Name = ''/src/sub/b.jpg'', Op = fsnotify_Write\<rparr> example_world)
     = [DetectedModification ''/src/sub/b.jpg'']
   \<and> root (onEvent_seq example_globals \<lparr>Name = ''/src/sub/b.jpg'', Op = fsnotify_Write\<rparr> example_world)
     = example_tree
   \<and> stdout (onEvent_seq example_globals \<lparr>Name = ''/src/sub/b.jpg'', Op = fsnotify_Write\<rparr> example_world)
     = [DetectedModification ''/src/sub/b.jpg'']"
proof -
  let ?ev = "\<lparr>Name = ''/src/sub/b.jpg'', Op = fsnotify_Write\<rparr>"
  have c1: "lookup example_tree [''dst'', ''sub''] = Inl ENOENT"
    by code_simp
  have c2: "fst (copyFileWithProgress example_world ''/src/sub/b.jpg'' ''/dst/sub/b.jpg'')
      = Some (PathError SysCreate ''/dst/sub/b.jpg'' ENOENT)"
    by code_simp
  have c3: "root (onEvent example_globals ?ev example_world) = example_tree"
    by code_simp
  have c4: "stdout (onEvent example_globals ?ev example_world)
      = [DetectedModification ''/src/sub/b.jpg'']"
    by code_simp
  have c5: "root (onEvent_seq example_globals ?ev example_world) = example_tree"
    by code_simp
  have c6: "stdout (onEvent_seq example_globals ?ev example_world)
      = [DetectedModification ''/src/sub/b.jpg'']"
    by code_simp
  from c1 c2 c3 c4 c5 c6 show ?thesis
    by (intro conjI)
qed

subsection \<open>C8: events on directories\<close>

text \<open>
  C8 fails in both revisions: the handlers do not look at what the changed path is. For the
  creation of the directory \<^verbatim>\<open>/src/sub\<close> the handler calls \<^verbatim>\<open>copyFileWithProgress\<close>, which opens
  the directory, creates the empty regular file \<^verbatim>\<open>/dst/sub\<close> and fails reading the
  directory (\<^verbatim>\<open>EISDIR\<close>); the file stays.
\<close>

theorem C8_directory_event_writes:
  "lookup example_tree [''src'', ''sub'']
     = Inr (Dir 493 \<lparr>sec = 100, nsec = 0\<rparr>
              [(''b.jpg'', File 420 \<lparr>sec = 200, nsec = 0\<rparr> ''image'')])
   \<and> lookup example_tree [''dst'', ''sub''] = Inl ENOENT
   \<and> fst (copyFileWithProgress example_world ''/src/sub'' ''/dst/sub'')
     = Some (PathError SysRead ''/src/sub'' EISDIR)
   \<and> lookup (root (onEvent example_globals \<lparr>Name = ''/src/sub'', Op = fsnotify_Create\<rparr>
                       example_world)) [''dst'', ''sub'']
     = Inr (File 420 \<lparr>sec = 300, nsec = 0\<rparr> [])
   \<and> lookup (root (onEvent_seq example_globals \<lparr>Name = ''/src/sub'', Op = fsnotify_Create\<rparr>
                       example_world)) [''dst'', ''sub'']
     = Inr (File 420 \<lparr>sec = 300, nsec = 0\<rparr> [])"
proof -
  let ?ev = "\<lparr>Name = ''/src/sub'', Op = fsnotify_Create\<rparr>"
  have c1: "lookup example_tree [''src'', ''sub'']
      = Inr (Dir 493 \<lparr>sec = 100, nsec = 0\<rparr>
               [(''b.jpg'', File 420 \<lparr>sec = 200, nsec = 0\<rparr> ''image'')])"
    by code_simp
  have c2: "lookup example_tree [''dst'', ''sub''] = Inl ENOENT"
    by code_simp
  have c3: "fst (copyFileWithProgress example_world ''/src/sub'' ''/dst/sub'')
      = Some (PathError SysRead ''/src/sub'' EISDIR)"
    by code_simp
  have c4: "lookup (root (onEvent example_globals ?ev example_world)) [''dst'', ''sub'']
      = Inr (File 420 \<lparr>sec = 300, nsec = 0\<rparr> [])"
    by code_simp
  have c5: "lookup (root (onEvent_seq example_globals ?ev example_world)) [''dst'', ''sub'']
      = Inr (File 420 \<lparr>sec = 300, nsec = 0\<rparr> [])"
    by code_simp
  from c1 c2 c3 c4 c5 show ?thesis
    by (intro conjI)
qed

subsection \<open>C9: the throughput report\<close>





subsection \<open>C10: events that are neither writes nor creations\<close>

text \<open>
  C10. For an event whose operations include neither \<^verbatim>\<open>Write\<close> nor \<^verbatim>\<open>Create\<close>, the event
  handlers of both revisions leave the world as it is, whatever the include rules: nothing
  is transferred, written or printed, and the watch loop goes on with the next delivery.
  \<^verbatim>\<open>Remove\<close>, \<^verbatim>\<open>Rename\<close> and \<^verbatim>\<open>Chmod\<close> alone are such operations.
\<close>

theorem C10_other_operations:
  "(Op ev AND fsnotify_Write \<noteq> fsnotify_Write \<and> Op ev AND fsnotify_Create \<noteq> fsnotify_Create \<longrightarrow>
      onEvent g ev w = w \<and> onEvent_seq g ev w = w
      \<and> watch_loop (onEvent g) (Event ev # rest) w = watch_loop (onEvent g) rest w
      \<and> watch_loop (onEvent_seq g) (Event ev # rest) w = watch_loop (onEvent_seq g) rest w)
   \<and> (Op ev = fsnotify_Remove \<or> Op ev = fsnotify_Rename \<or> Op ev = fsnotify_Chmod \<longrightarrow>
      onEvent g ev w = w \<and> onEvent_seq g ev w = w)"
proof (intro conjI impI)
  assume a: "Op ev AND fsnotify_Write \<noteq> fsnotify_Write \<and> Op ev AND fsnotify_Create \<noteq> fsnotify_Create"
  then show e1: "onEvent g ev w = w"
    by (simp add: onEvent_def)
  from a show e2: "onEvent_seq g ev w = w"
    by (simp add: onEvent_seq_def)
  from e1 show "watch_loop (onEvent g) (Event ev # rest) w = watch_loop (onEvent g) rest w"
    by simp
  from e2 show "watch_loop (onEvent_seq g) (Event ev # rest) w = watch_loop (onEvent_seq g) rest w"
    by simp
next
  assume "Op ev = fsnotify_Remove \<or> Op ev = fsnotify_Rename \<or> Op ev = fsnotify_Chmod"
  then have a: "Op ev AND fsnotify_Write \<noteq> fsnotify_Write
      \<and> Op ev AND fsnotify_Create \<noteq> fsnotify_Create"
    by (auto simp: fsnotify_Remove_def fsnotify_Rename_def fsnotify_Chmod_def
        fsnotify_Write_def fsnotify_Create_def)
  then show "onEvent g ev w = w"
    by (simp add: onEvent_def)
  from a show "onEvent_seq g ev w = w"
    by (simp add: onEvent_seq_def)
qed

text \<open>C10 at work: a removal, and a rename together with a change of mode, of \<^verbatim>\<open>/src/a.txt\<close>.\<close>

theorem C10_other_operations_witness:
  "onEvent example_globals \<lparr>Name = ''/src/a.txt'', Op = fsnotify_Remove\<rparr> example_world
     = example_world
   \<and> onEvent_seq example_globals \<lparr>Name = ''/src/a.txt'', Op = fsnotify_Remove\<rparr> example_world
     = example_world
   \<and> onEvent example_globals \<lparr>Name = ''/src/a.txt'', Op = fsnotify_Rename OR fsnotify_Chmod\<rparr>
       example_world = example_world"
proof -
  have h1: "Op \<lparr>Name = ''/src/a.txt'', Op = fsnotify_Remove\<rparr> = fsnotify_Remove"
    by simp
  have h2: "Op \<lparr>Name = ''/src/a.txt'', Op = fsnotify_Rename OR fsnotify_Chmod\<rparr> AND fsnotify_Write
        \<noteq> fsnotify_Write
      \<and> Op \<lparr>Name = ''/src/a.txt'', Op = fsnotify_Rename OR fsnotify_Chmod\<rparr> AND fsnotify_Create
        \<noteq> fsnotify_Create"
    by (simp add: fsnotify_Rename_def fsnotify_Chmod_def fsnotify_Write_def fsnotify_Create_def)
  show ?thesis
    using C10_other_operations [of "\<lparr>Name = ''/src/a.txt'', Op = fsnotify_Remove\<rparr>"
        example_globals example_world "[]"] h1
      C10_other_operations [of "\<lparr>Name = ''/src/a.txt'', Op = fsnotify_Rename OR fsnotify_Chmod\<rparr>"
        example_globals example_world "[]"] h2
    by blast
qed

end
